theory Spec2Isabelle
  imports Main "HOL-Library.Word"
begin

unbundle bit_operations_syntax

section \<open>The SOEM shim of XeryonEtherCAT\<close>

text \<open>
  A shallow embedding of \<^verbatim>\<open>src/native/soemshim-linux/soem_shim.c\<close> (the extended
  shim), of its header \<^verbatim>\<open>src/native/soemshim/soem_shim.h\<close>, and of the exchange
  function of the legacy shim \<^verbatim>\<open>src/native/soemshim/soem_shim.c\<close>.

  Conventions.
  \<^item> Fixed-width C integers are machine words. A C \<^verbatim>\<open>int\<close> is a 32-bit word read
    with \<open>sint\<close>; a cast \<^verbatim>\<open>(int)x\<close> of a \<^verbatim>\<open>uint32\<close> is \<open>sint x\<close>. Where a C
    expression is evaluated in \<^verbatim>\<open>int\<close> and cannot leave its range, the model computes it
    on the mathematical integers read from the words.
  \<^item> Memory is a store from addresses to bytes; a pointer is an address and \<open>0\<close> is
    \<^verbatim>\<open>NULL\<close>. The buffers a caller passes by pointer and length are byte lists,
    \<open>None\<close> for a null pointer, with the length argument kept apart as in the C
    signature.
  \<^item> An out-parameter is returned: a function that writes through a pointer returns the
    new value of what it points to.
  \<^item> The SOEM library (\<^verbatim>\<open>soem/soem.h\<close>) is not part of the repository. Its functions are
    the fields of a record \<open>ecx_stack\<close>, arbitrary functions on the context (and on memory
    for the process-data calls); its types are modelled with the fields the shim uses.
  \<^item> The log sink (\<^verbatim>\<open>log_message\<close> and the \<^verbatim>\<open>LOGx\<close> macros) is not modelled: a log
    call changes neither the handle nor the memory.
\<close>

subsection \<open>Machine types and memory\<close>

type_synonym uint8_t = "8 word"
type_synonym uint16_t = "16 word"
type_synonym uint32_t = "32 word"
type_synonym int32_t = "32 word"   \<comment> \<open>read with \<open>sint\<close>\<close>
type_synonym c_int = "32 word"     \<comment> \<open>read with \<open>sint\<close>\<close>
type_synonym addr = nat
type_synonym mem = "addr \<Rightarrow> uint8_t"

text \<open>\<^verbatim>\<open>memset(p, c, n)\<close> on the store.\<close>

definition memset :: "mem \<Rightarrow> addr \<Rightarrow> uint8_t \<Rightarrow> nat \<Rightarrow> mem" where
  "memset m p c n = (\<lambda>a. if p \<le> a \<and> a < p + n then c else m a)"

text \<open>\<^verbatim>\<open>memcpy(p, src, n)\<close> from a caller's buffer into the store.\<close>

definition memcpy_in :: "mem \<Rightarrow> addr \<Rightarrow> uint8_t list \<Rightarrow> nat \<Rightarrow> mem" where
  "memcpy_in m p src n = (\<lambda>a. if p \<le> a \<and> a < p + n then src ! (a - p) else m a)"

text \<open>\<^verbatim>\<open>memcpy(dst, p, n)\<close> from the store into a caller's buffer.\<close>

definition memcpy_out :: "uint8_t list \<Rightarrow> mem \<Rightarrow> addr \<Rightarrow> nat \<Rightarrow> uint8_t list" where
  "memcpy_out dst m p n = map (\<lambda>k. m (p + k)) [0..<n] @ drop n dst"

text \<open>
  \<^verbatim>\<open>memcpy\<close> between the store and a 16- or 32-bit object. The source comments
  ``little-endian'': the byte at the lowest address is the least significant.
\<close>

definition load_le32 :: "mem \<Rightarrow> addr \<Rightarrow> uint32_t" where
  "load_le32 m p =
     ucast (m p) OR push_bit 8 (ucast (m (p + 1))) OR
     push_bit 16 (ucast (m (p + 2))) OR push_bit 24 (ucast (m (p + 3)))"

definition store_le32 :: "mem \<Rightarrow> addr \<Rightarrow> uint32_t \<Rightarrow> mem" where
  "store_le32 m p w =
     m(p := ucast w, p + 1 := ucast (drop_bit 8 w),
       p + 2 := ucast (drop_bit 16 w), p + 3 := ucast (drop_bit 24 w))"

definition store_le16 :: "mem \<Rightarrow> addr \<Rightarrow> uint16_t \<Rightarrow> mem" where
  "store_le16 m p w = m(p := ucast w, p + 1 := ucast (drop_bit 8 w))"

subsection \<open>Types of the SOEM library used by the shim\<close>

text \<open>
  Modelled from the spec: the slave, group and context structures and the state codes of
  \<^verbatim>\<open>soem/soem.h\<close>, which the repository includes but does not contain. A slave has a
  runtime state, an abort/status code, the byte lengths of its input and output regions
  and pointers to them; the group has the aggregate lengths, the region pointers and the
  two working-counter contributions. Field widths are those the shim's casts assume
  (\<^verbatim>\<open>(int)slave->Ibytes\<close>, \<^verbatim>\<open>(uint16)(EC_STATE_SAFE_OP | EC_STATE_ACK)\<close>,
  \<^verbatim>\<open>(unsigned)g->outputsWKC\<close>, \<^verbatim>\<open>uint32_t al_status_code\<close>).
\<close>

record ec_slavet =
  state :: uint16_t
  ALstatuscode :: uint16_t
  Obytes :: uint32_t
  outputs :: addr
  Ibytes :: uint32_t
  inputs :: addr

record ec_groupt =
  Obytes :: uint32_t
  outputs :: addr
  Ibytes :: uint32_t
  inputs :: addr
  outputsWKC :: uint16_t
  inputsWKC :: uint16_t

text \<open>
  The context: \<open>port\<close> stands for everything of the stack the shim never looks at (the
  network port, the bus behind it); \<open>slavelist\<close> is the fixed array, entry 0 the master's
  view of the whole bus; \<open>grouplist0\<close> is \<^verbatim>\<open>grouplist[0]\<close>, the only group used.
\<close>

record 'p ecx_contextt =
  port :: 'p
  slavecount :: c_int
  slavelist :: "nat \<Rightarrow> ec_slavet"
  grouplist0 :: ec_groupt

definition EC_STATE_INIT :: uint16_t where "EC_STATE_INIT = 0x01"
definition EC_STATE_PRE_OP :: uint16_t where "EC_STATE_PRE_OP = 0x02"
definition EC_STATE_SAFE_OP :: uint16_t where "EC_STATE_SAFE_OP = 0x04"
definition EC_STATE_OPERATIONAL :: uint16_t where "EC_STATE_OPERATIONAL = 0x08"
definition EC_STATE_ACK :: uint16_t where "EC_STATE_ACK = 0x10"
definition EC_STATE_ERROR :: uint16_t where "EC_STATE_ERROR = 0x10"

subsection \<open>soem\_shim.h\<close>

definition SOEM_ERR_BAD_ARGS :: c_int where "SOEM_ERR_BAD_ARGS = - 13"
definition SOEM_ERR_SEND_FAIL :: c_int where "SOEM_ERR_SEND_FAIL = - 11"
definition SOEM_ERR_RECV_FAIL :: c_int where "SOEM_ERR_RECV_FAIL = - 12"
definition SOEM_ERR_WKC_LOW :: c_int where "SOEM_ERR_WKC_LOW = - 10"

text \<open>The field \<^verbatim>\<open>context\<close> of the handle is \<open>ctxt\<close> here.\<close>

record 'p soem_handle =
  ctxt :: "'p ecx_contextt"
  IOmap :: addr
  output_length :: c_int
  input_length :: c_int
  last_wkc :: c_int
  last_expected_wkc :: c_int

record DriveRxPDO =
  Command :: "uint8_t list"   \<comment> \<open>\<^verbatim>\<open>char Command[32]\<close>\<close>
  Parameter :: int32_t
  Velocity :: uint32_t
  Acceleration :: uint16_t
  Deceleration :: uint16_t
  Execute :: uint8_t

record DriveTxPDO =
  ActualPosition :: int32_t
  AmplifiersEnabled :: uint8_t
  EndStop :: uint8_t
  ThermalProtection1 :: uint8_t
  ThermalProtection2 :: uint8_t
  ForceZero :: uint8_t
  MotorOn :: uint8_t
  ClosedLoop :: uint8_t
  EncoderIndex :: uint8_t
  EncoderValid :: uint8_t
  SearchingIndex :: uint8_t
  PositionReached :: uint8_t
  ErrorCompensation :: uint8_t
  EncoderError :: uint8_t
  Scanning :: uint8_t
  LeftEndStop :: uint8_t
  RightEndStop :: uint8_t
  ErrorLimit :: uint8_t
  SearchingOptimalFrequency :: uint8_t
  SafetyTimeout :: uint8_t
  ExecuteAck :: uint8_t
  EmergencyStop :: uint8_t
  PositionFail :: uint8_t
  Slot :: uint8_t

record soem_health =
  slaves_found :: c_int
  group_expected_wkc :: c_int
  health_last_wkc :: c_int   \<comment> \<open>the field \<^verbatim>\<open>last_wkc\<close> of \<^verbatim>\<open>soem_health_t\<close>\<close>
  bytes_out :: c_int
  bytes_in :: c_int
  slaves_op :: c_int
  al_status_code :: uint32_t

subsection \<open>The PDO codec\<close>

definition IO_RX_BYTES :: int where "IO_RX_BYTES = 20"
definition IO_TX_BYTES :: int where "IO_TX_BYTES = 8"

definition soem_get_slave_count :: "'p soem_handle option \<Rightarrow> c_int" where
  "soem_get_slave_count handle =
     (case handle of None \<Rightarrow> 0 | Some h \<Rightarrow> slavecount (ctxt h))"

text \<open>
  \<^verbatim>\<open>soem_read_txpdo\<close>. The result is the return value and the caller's record after
  the call. The test \<^verbatim>\<open>!slave\<close> of the source is the address of an array element and
  never holds.
\<close>

definition soem_read_txpdo ::
  "'p soem_handle option \<Rightarrow> c_int \<Rightarrow> DriveTxPDO option \<Rightarrow> mem \<Rightarrow> c_int \<times> DriveTxPDO option"
where
  "soem_read_txpdo handle slave_index out m =
     (case handle of
        None \<Rightarrow> (0, out)
      | Some h \<Rightarrow>
          (case out of
             None \<Rightarrow> (0, out)
           | Some r \<Rightarrow>
               if sint slave_index \<le> 0 \<or> sint slave_index > sint (slavecount (ctxt h))
               then (0, out)
               else
                 let slave = slavelist (ctxt h) (nat (sint slave_index)) in
                 if ec_slavet.inputs slave = 0 then (0, out)
                 else if sint (ec_slavet.Ibytes slave) < IO_TX_BYTES then (0, out)
                 else
                   let buf = ec_slavet.inputs slave;
                       b4 = m (buf + 4);
                       b5 = m (buf + 5);
                       b6 = m (buf + 6)
                   in (1, Some (r\<lparr>
                         ActualPosition := load_le32 m buf,
                         AmplifiersEnabled := drop_bit 0 b4 AND 1,
                         EndStop := drop_bit 1 b4 AND 1,
                         ThermalProtection1 := drop_bit 2 b4 AND 1,
                         ThermalProtection2 := drop_bit 3 b4 AND 1,
                         ForceZero := drop_bit 4 b4 AND 1,
                         MotorOn := drop_bit 5 b4 AND 1,
                         ClosedLoop := drop_bit 6 b4 AND 1,
                         EncoderIndex := drop_bit 7 b4 AND 1,
                         EncoderValid := drop_bit 0 b5 AND 1,
                         SearchingIndex := drop_bit 1 b5 AND 1,
                         PositionReached := drop_bit 2 b5 AND 1,
                         ErrorCompensation := drop_bit 3 b5 AND 1,
                         EncoderError := drop_bit 4 b5 AND 1,
                         Scanning := drop_bit 5 b5 AND 1,
                         LeftEndStop := drop_bit 6 b5 AND 1,
                         RightEndStop := drop_bit 7 b5 AND 1,
                         ErrorLimit := drop_bit 0 b6 AND 1,
                         SearchingOptimalFrequency := drop_bit 1 b6 AND 1,
                         SafetyTimeout := drop_bit 2 b6 AND 1,
                         ExecuteAck := drop_bit 3 b6 AND 1,
                         EmergencyStop := drop_bit 4 b6 AND 1,
                         PositionFail := drop_bit 5 b6 AND 1,
                         Slot := m (buf + 7)\<rparr>))))"

text \<open>
  \<^verbatim>\<open>soem_write_rxpdo\<close>. The result is the return value and the store after the call.
\<close>

definition soem_write_rxpdo ::
  "'p soem_handle option \<Rightarrow> c_int \<Rightarrow> DriveRxPDO option \<Rightarrow> mem \<Rightarrow> c_int \<times> mem"
where
  "soem_write_rxpdo handle slave_index inp m =
     (case handle of
        None \<Rightarrow> (0, m)
      | Some h \<Rightarrow>
          (case inp of
             None \<Rightarrow> (0, m)
           | Some rx \<Rightarrow>
               if sint slave_index \<le> 0 \<or> sint slave_index > sint (slavecount (ctxt h))
               then (0, m)
               else
                 let slave = slavelist (ctxt h) (nat (sint slave_index)) in
                 if ec_slavet.outputs slave = 0 then (0, m)
                 else if sint (ec_slavet.Obytes slave) < IO_RX_BYTES then (0, m)
                 else
                   let buf = ec_slavet.outputs slave;
                       m1 = memcpy_in m buf (Command rx) 4;
                       m2 = store_le32 m1 (buf + 4) (Parameter rx);
                       m3 = store_le32 m2 (buf + 8) (Velocity rx);
                       m4 = store_le16 m3 (buf + 12) (Acceleration rx);
                       m5 = store_le16 m4 (buf + 14) (Deceleration rx);
                       m6 = m5(buf + 16 := Execute rx)
                   in (1, m6)))"

subsection \<open>The SOEM library as a parameter\<close>

text \<open>
  Modelled from the spec: the functions of the external protocol stack (``\<^verbatim>\<open>init\<close>,
  \<^verbatim>\<open>discover_and_configure\<close>, \<^verbatim>\<open>map_process_image\<close>, \<^verbatim>\<open>enable_distributed_clock\<close>,
  \<^verbatim>\<open>read_state\<close>/\<^verbatim>\<open>write_state\<close>, \<^verbatim>\<open>send_cycle\<close>/\<^verbatim>\<open>receive_cycle\<close>''), under the
  names the shim calls them by. Each takes the context and returns its C result with the
  context after the call; the calls that move process data also take and return the store.
  Nothing is assumed about what they compute.
\<close>

record 'p ecx_stack =
  ecx_init :: "'p ecx_contextt \<Rightarrow> string option \<Rightarrow> c_int \<times> 'p ecx_contextt"
  ecx_config_init :: "'p ecx_contextt \<Rightarrow> c_int \<times> 'p ecx_contextt"
  ecx_config_map_group :: "'p ecx_contextt \<Rightarrow> addr \<Rightarrow> mem \<Rightarrow> c_int \<times> 'p ecx_contextt \<times> mem"
  ecx_configdc :: "'p ecx_contextt \<Rightarrow> 'p ecx_contextt"
  ecx_close :: "'p ecx_contextt \<Rightarrow> 'p ecx_contextt"
  ecx_readstate :: "'p ecx_contextt \<Rightarrow> 'p ecx_contextt"
  ecx_writestate :: "'p ecx_contextt \<Rightarrow> c_int \<Rightarrow> 'p ecx_contextt"
  ecx_statecheck :: "'p ecx_contextt \<Rightarrow> c_int \<Rightarrow> uint16_t \<Rightarrow> c_int \<Rightarrow> uint16_t \<times> 'p ecx_contextt"
  ecx_send_processdata :: "'p ecx_contextt \<Rightarrow> mem \<Rightarrow> c_int \<times> 'p ecx_contextt \<times> mem"
  ecx_receive_processdata :: "'p ecx_contextt \<Rightarrow> mem \<Rightarrow> c_int \<Rightarrow> c_int \<times> 'p ecx_contextt \<times> mem"

text \<open>The library's timeout for a state change, in microseconds.\<close>

definition EC_TIMEOUTSTATE :: c_int where "EC_TIMEOUTSTATE = 2000000"

subsection \<open>The cyclic exchange\<close>

text \<open>
  The expression \<^verbatim>\<open>(int)(g->outputsWKC * 2 + g->inputsWKC)\<close>: both counters are
  promoted to \<^verbatim>\<open>int\<close> and the arithmetic is 32-bit.
\<close>

definition expected_wkc :: "ec_groupt \<Rightarrow> c_int" where
  "expected_wkc g = ucast (outputsWKC g) * 2 + ucast (inputsWKC g)"

text \<open>
  The block ``Prepare outputs'' of \<^verbatim>\<open>soem_exchange_process_data\<close> in the extended shim:
  the store as the send will find it. \<^verbatim>\<open>(int)g->Obytes\<close> is \<open>sint\<close> of the length.
\<close>

definition stage_outputs :: "ec_groupt \<Rightarrow> uint8_t list option \<Rightarrow> c_int \<Rightarrow> mem \<Rightarrow> mem" where
  "stage_outputs g outputs_buf outputs_len m =
     (if ec_groupt.Obytes g \<noteq> 0
      then (case outputs_buf of
              None \<Rightarrow> m
            | Some src \<Rightarrow>
                if 0 < sint outputs_len
                then
                  let mz = memset m (ec_groupt.outputs g) 0 (unat (ec_groupt.Obytes g));
                      copy = (if sint outputs_len < sint (ec_groupt.Obytes g)
                              then sint outputs_len else sint (ec_groupt.Obytes g))
                  in if 0 < copy then memcpy_in mz (ec_groupt.outputs g) src (nat copy) else mz
                else m)
      else m)"

text \<open>The block ``Copy inputs up to Ibytes'': the caller's input buffer after the call.\<close>

definition copy_inputs :: "ec_groupt \<Rightarrow> uint8_t list option \<Rightarrow> c_int \<Rightarrow> mem \<Rightarrow> uint8_t list option" where
  "copy_inputs g inputs_buf inputs_len m =
     (case inputs_buf of
        None \<Rightarrow> None
      | Some dst \<Rightarrow>
          if 0 < sint inputs_len \<and> ec_groupt.Ibytes g \<noteq> 0
          then
            let copy = (if sint inputs_len < sint (ec_groupt.Ibytes g)
                        then sint inputs_len else sint (ec_groupt.Ibytes g))
            in if 0 < copy then Some (memcpy_out dst m (ec_groupt.inputs g) (nat copy))
               else Some dst
          else Some dst)"

text \<open>\<^verbatim>\<open>if (timeout_us < 0) timeout_us = 0;\<close>\<close>

definition clamp_timeout :: "c_int \<Rightarrow> c_int" where
  "clamp_timeout timeout_us = (if sint timeout_us < 0 then 0 else timeout_us)"

text \<open>
  \<^verbatim>\<open>soem_exchange_process_data\<close> of the extended shim. The result is the return value,
  the handle, the caller's input buffer and the store after the call. The group is read
  through the pointer \<^verbatim>\<open>g\<close> each time, so each read sees the context as the last
  library call left it.
\<close>

definition soem_exchange_process_data ::
  "'p ecx_stack \<Rightarrow> 'p soem_handle option \<Rightarrow> uint8_t list option \<Rightarrow> c_int \<Rightarrow>
   uint8_t list option \<Rightarrow> c_int \<Rightarrow> c_int \<Rightarrow> mem \<Rightarrow>
   c_int \<times> 'p soem_handle option \<times> uint8_t list option \<times> mem"
where
  "soem_exchange_process_data st handle outputs_buf outputs_len inputs_buf inputs_len timeout_us m =
     (case handle of
        None \<Rightarrow> (SOEM_ERR_BAD_ARGS, None, inputs_buf, m)
      | Some h \<Rightarrow>
          let timeout = clamp_timeout timeout_us;
              m1 = stage_outputs (grouplist0 (ctxt h)) outputs_buf outputs_len m
          in case ecx_send_processdata st (ctxt h) m1 of (wkc, c1, m2) \<Rightarrow>
             let expected = expected_wkc (grouplist0 c1) in
             if sint wkc < 0 then (SOEM_ERR_SEND_FAIL, Some (h\<lparr>ctxt := c1\<rparr>), inputs_buf, m2)
             else
               case ecx_receive_processdata st c1 m2 timeout of (wkc, c2, m3) \<Rightarrow>
               let h2 = h\<lparr>ctxt := c2, last_wkc := wkc, last_expected_wkc := expected\<rparr> in
               if sint wkc < 0 then (SOEM_ERR_RECV_FAIL, Some h2, inputs_buf, m3)
               else
                 let inputs_buf' = copy_inputs (grouplist0 c2) inputs_buf inputs_len m3 in
                 if sint expected \<le> 0 then (wkc, Some h2, inputs_buf', m3)
                 else if sint wkc < sint expected then (SOEM_ERR_WKC_LOW, Some h2, inputs_buf', m3)
                 else (wkc, Some h2, inputs_buf', m3))"

text \<open>
  The legacy shim (\<^verbatim>\<open>src/native/soemshim/soem_shim.c\<close>): its handle has the context,
  the process image as an array inside the handle, and the two lengths. Its
  \<^verbatim>\<open>soem_exchange_process_data\<close> copies the caller's outputs without clearing the
  region, copies the inputs whatever the receive returned, and returns the raw counter.
  A negative \<^verbatim>\<open>(size_t)copy\<close> is no copy here.
\<close>

record 'p legacy_soem_handle =
  legacy_context :: "'p ecx_contextt"
  legacy_output_length :: c_int
  legacy_input_length :: c_int

definition legacy_stage_outputs :: "ec_groupt \<Rightarrow> uint8_t list option \<Rightarrow> c_int \<Rightarrow> mem \<Rightarrow> mem" where
  "legacy_stage_outputs grp outputs_buf outputs_length m =
     (case outputs_buf of
        None \<Rightarrow> m
      | Some src \<Rightarrow>
          if 0 < sint outputs_length \<and> 0 < unat (ec_groupt.Obytes grp)
          then
            let copy = (if sint outputs_length > sint (ec_groupt.Obytes grp)
                        then sint (ec_groupt.Obytes grp) else sint outputs_length)
            in memcpy_in m (ec_groupt.outputs grp) src (nat copy)
          else m)"

definition legacy_copy_inputs ::
  "ec_groupt \<Rightarrow> uint8_t list option \<Rightarrow> c_int \<Rightarrow> mem \<Rightarrow> uint8_t list option" where
  "legacy_copy_inputs grp inputs_buf inputs_length m =
     (case inputs_buf of
        None \<Rightarrow> None
      | Some dst \<Rightarrow>
          if 0 < sint inputs_length \<and> 0 < unat (ec_groupt.Ibytes grp)
          then
            let copy = (if sint inputs_length > sint (ec_groupt.Ibytes grp)
                        then sint (ec_groupt.Ibytes grp) else sint inputs_length)
            in Some (memcpy_out dst m (ec_groupt.inputs grp) (nat copy))
          else Some dst)"

definition legacy_soem_exchange_process_data ::
  "'p ecx_stack \<Rightarrow> 'p legacy_soem_handle option \<Rightarrow> uint8_t list option \<Rightarrow> c_int \<Rightarrow>
   uint8_t list option \<Rightarrow> c_int \<Rightarrow> c_int \<Rightarrow> mem \<Rightarrow>
   c_int \<times> 'p legacy_soem_handle option \<times> uint8_t list option \<times> mem"
where
  "legacy_soem_exchange_process_data st handle outputs_buf outputs_length inputs_buf inputs_length
       timeout m =
     (case handle of
        None \<Rightarrow> (- 1, None, inputs_buf, m)
      | Some h \<Rightarrow>
          let m1 = legacy_stage_outputs (grouplist0 (legacy_context h)) outputs_buf outputs_length m
          in case ecx_send_processdata st (legacy_context h) m1 of (wkc, c1, m2) \<Rightarrow>
             if sint wkc < 0 then (wkc, Some (h\<lparr>legacy_context := c1\<rparr>), inputs_buf, m2)
             else
               case ecx_receive_processdata st c1 m2 timeout of (wkc, c2, m3) \<Rightarrow>
               (wkc, Some (h\<lparr>legacy_context := c2\<rparr>),
                legacy_copy_inputs (grouplist0 c2) inputs_buf inputs_length m3, m3))"

subsection \<open>Recovery\<close>

text \<open>
  The first loop of \<^verbatim>\<open>soem_try_recover\<close>: every slave whose state has the error bit is
  set to \<^verbatim>\<open>SAFE_OP | ACK\<close> and written. The bound \<^verbatim>\<open>h->context.slavecount\<close> is read
  again at each turn, after the library call. The counter \<open>i\<close> is the value of the C
  variable; it stays below \<open>2 ^ 31\<close> because the bound is an \<^verbatim>\<open>int\<close>.
\<close>

function clear_error_flags :: "'p ecx_stack \<Rightarrow> int \<Rightarrow> 'p ecx_contextt \<Rightarrow> 'p ecx_contextt" where
  "clear_error_flags st i c =
     (if i \<le> sint (slavecount c)
      then
        let s = slavelist c (nat i) in
        if state s AND EC_STATE_ERROR \<noteq> 0
        then
          let c1 = c\<lparr>slavelist := (slavelist c)(nat i := s\<lparr>state := EC_STATE_SAFE_OP OR EC_STATE_ACK\<rparr>)\<rparr>
          in clear_error_flags st (i + 1) (ecx_writestate st c1 (word_of_int i))
        else clear_error_flags st (i + 1) c
      else c)"
  by pat_completeness auto
termination
proof (relation "measure (\<lambda>(st, i, c). nat (2 ^ 31 - i))")
  show "wf (measure (\<lambda>(st :: 'p ecx_stack, i :: int, c :: 'p ecx_contextt). nat (2 ^ 31 - i)))"
    by simp
next
  fix st :: "'p ecx_stack" and i :: int and c :: "'p ecx_contextt" and x xa
  assume "i \<le> sint (slavecount c)"
  moreover have "sint (slavecount c) < 2 ^ 31"
    using sint_lt [of "slavecount c"] by simp
  ultimately have "i < 2 ^ 31" by linarith
  then show "((st, i + 1, ecx_writestate st xa (word_of_int i)), st, i, c)
               \<in> measure (\<lambda>(st, i, c). nat (2 ^ 31 - i))"
    by simp
next
  fix st :: "'p ecx_stack" and i :: int and c :: "'p ecx_contextt"
  assume "i \<le> sint (slavecount c)"
  moreover have "sint (slavecount c) < 2 ^ 31"
    using sint_lt [of "slavecount c"] by simp
  ultimately have "i < 2 ^ 31" by linarith
  then show "((st, i + 1, c), st, i, c) \<in> measure (\<lambda>(st, i, c). nat (2 ^ 31 - i))"
    by simp
qed

declare clear_error_flags.simps [simp del]

text \<open>The three blind cycles: send, then receive with a wait of 1000; results ignored.\<close>

fun blind_cycles :: "'p ecx_stack \<Rightarrow> nat \<Rightarrow> 'p ecx_contextt \<Rightarrow> mem \<Rightarrow> 'p ecx_contextt \<times> mem" where
  "blind_cycles st 0 c m = (c, m)"
| "blind_cycles st (Suc k) c m =
     (case ecx_send_processdata st c m of (_, c1, m1) \<Rightarrow>
      case ecx_receive_processdata st c1 m1 1000 of (_, c2, m2) \<Rightarrow>
      blind_cycles st k c2 m2)"

text \<open>The per-slave verification loop, from slave \<open>i\<close> on: 0 at the first slave not OPERATIONAL.\<close>

function verify_slaves :: "'p ecx_contextt \<Rightarrow> int \<Rightarrow> c_int" where
  "verify_slaves c i =
     (if i \<le> sint (slavecount c)
      then if state (slavelist c (nat i)) \<noteq> EC_STATE_OPERATIONAL then 0
           else verify_slaves c (i + 1)
      else 1)"
  by pat_completeness auto
termination
  by (relation "measure (\<lambda>(c, i). nat (sint (slavecount c) + 1 - i))") auto

declare verify_slaves.simps [simp del]

text \<open>
  \<^verbatim>\<open>soem_try_recover\<close>: the return value, the handle and the store after the call.
  The product \<^verbatim>\<open>timeout_ms * 1000\<close> is 32-bit.
\<close>

definition soem_try_recover ::
  "'p ecx_stack \<Rightarrow> 'p soem_handle option \<Rightarrow> c_int \<Rightarrow> mem \<Rightarrow> c_int \<times> 'p soem_handle option \<times> mem"
where
  "soem_try_recover st handle timeout_ms m =
     (case handle of
        None \<Rightarrow> (0, None, m)
      | Some h \<Rightarrow>
          let c1 = ecx_readstate st (ctxt h);
              c2 = clear_error_flags st 1 c1;
              c3 = c2\<lparr>slavelist := (slavelist c2)(0 := (slavelist c2 0)\<lparr>state := EC_STATE_OPERATIONAL\<rparr>)\<rparr>;
              c4 = ecx_writestate st c3 0
          in case blind_cycles st 3 c4 m of (c5, m1) \<Rightarrow>
             case ecx_statecheck st c5 0 EC_STATE_OPERATIONAL (timeout_ms * 1000) of (rc, c6) \<Rightarrow>
             if rc \<noteq> EC_STATE_OPERATIONAL then (0, Some (h\<lparr>ctxt := c6\<rparr>), m1)
             else (verify_slaves c6 1, Some (h\<lparr>ctxt := c6\<rparr>), m1))"

subsection \<open>Health\<close>

text \<open>The counting loop of \<^verbatim>\<open>soem_get_health\<close>, from slave \<open>i\<close> on with \<open>op\<close> counted so far.\<close>

function count_operational :: "'p ecx_contextt \<Rightarrow> int \<Rightarrow> c_int \<Rightarrow> c_int" where
  "count_operational c i op =
     (if i \<le> sint (slavecount c)
      then count_operational c (i + 1)
             (if state (slavelist c (nat i)) = EC_STATE_OPERATIONAL then op + 1 else op)
      else op)"
  by pat_completeness auto
termination
  by (relation "measure (\<lambda>(c, i, op). nat (sint (slavecount c) + 1 - i))") auto

declare count_operational.simps [simp del]

text \<open>
  \<^verbatim>\<open>soem_get_health\<close>: the return value, the handle and the caller's snapshot after the
  call. The snapshot is cleared first (\<^verbatim>\<open>memset\<close>), so what the caller had in it is lost.
\<close>

definition soem_get_health ::
  "'p ecx_stack \<Rightarrow> 'p soem_handle option \<Rightarrow> soem_health option \<Rightarrow>
   c_int \<times> 'p soem_handle option \<times> soem_health option"
where
  "soem_get_health st handle out =
     (case handle of
        None \<Rightarrow> (0, None, out)
      | Some h \<Rightarrow>
          (case out of
             None \<Rightarrow> (0, Some h, None)
           | Some _ \<Rightarrow>
               let g = grouplist0 (ctxt h);
                   o1 = \<lparr>slaves_found = slavecount (ctxt h),
                         group_expected_wkc = ucast (outputsWKC g) * 2 + ucast (inputsWKC g),
                         health_last_wkc = last_wkc h,
                         bytes_out = ec_groupt.Obytes g,
                         bytes_in = ec_groupt.Ibytes g,
                         slaves_op = 0,
                         al_status_code = 0\<rparr>;
                   c1 = ecx_readstate st (ctxt h);
                   o2 = o1\<lparr>slaves_op := count_operational c1 1 0\<rparr>;
                   o3 = (if 1 \<le> sint (slavecount c1)
                         then o2\<lparr>al_status_code := ucast (ALstatuscode (slavelist c1 1))\<rparr>
                         else o2)
               in (1, Some (h\<lparr>ctxt := c1\<rparr>), Some o3)))"

text \<open>The slaves from position \<open>i\<close> on whose state is OPERATIONAL, for stating the count.\<close>

abbreviation op_slaves :: "'p ecx_contextt \<Rightarrow> int \<Rightarrow> int set" where
  "op_slaves c i \<equiv> {j. i \<le> j \<and> j \<le> sint (slavecount c) \<and>
      state (slavelist c (nat j)) = EC_STATE_OPERATIONAL}"

subsection \<open>Session creation\<close>

text \<open>
  What \<^verbatim>\<open>soem_initialize\<close> acquires: the handle's memory (\<^verbatim>\<open>calloc\<close>), the port the
  library opens in a successful \<^verbatim>\<open>ecx_init\<close> and closes in \<^verbatim>\<open>ecx_close\<close>, and the
  process image (\<^verbatim>\<open>malloc\<close>). The list of resources held is bookkeeping beside the
  program state: \<open>acquire\<close> stands where the source allocates, \<open>release\<close> where it calls
  \<^verbatim>\<open>free\<close> or \<^verbatim>\<open>ecx_close\<close>.
\<close>

datatype resource = Handle_memory | Open_port | IOmap_memory

definition acquire :: "resource \<Rightarrow> resource list \<Rightarrow> resource list" where
  "acquire r held = r # held"

definition release :: "resource \<Rightarrow> resource list \<Rightarrow> resource list" where
  "release r held = remove1 r held"

definition iomap_size :: nat where "iomap_size = 64 * 1024"

text \<open>The handle as \<^verbatim>\<open>calloc\<close> returns it: every field zero (the port as the caller's \<open>p0\<close>).\<close>

definition calloc_handle :: "'p \<Rightarrow> 'p soem_handle" where
  "calloc_handle p0 =
     \<lparr>ctxt = \<lparr>port = p0, slavecount = 0,
              slavelist = (\<lambda>_. \<lparr>state = 0, ALstatuscode = 0, Obytes = 0, outputs = 0,
                                 Ibytes = 0, inputs = 0\<rparr>),
              grouplist0 = \<lparr>Obytes = 0, outputs = 0, Ibytes = 0, inputs = 0,
                            outputsWKC = 0, inputsWKC = 0\<rparr>\<rparr>,
      IOmap = 0, output_length = 0, input_length = 0, last_wkc = 0, last_expected_wkc = 0\<rparr>"

text \<open>\<^verbatim>\<open>DriveRxPDO rx = { 0 }; memcpy(rx.Command, "NOP", 3);\<close>\<close>

definition nop_command :: DriveRxPDO where
  "nop_command =
     \<lparr>Command = [0x4E, 0x4F, 0x50] @ replicate 29 0, Parameter = 0, Velocity = 0,
      Acceleration = 0, Deceleration = 0, Execute = 0\<rparr>"

text \<open>The staging loop, from slave \<open>i\<close> on; a failed write is only logged.\<close>

function stage_nop :: "'p soem_handle \<Rightarrow> int \<Rightarrow> c_int \<Rightarrow> mem \<Rightarrow> mem" where
  "stage_nop h i count m =
     (if i \<le> sint count
      then stage_nop h (i + 1) count
             (snd (soem_write_rxpdo (Some h) (word_of_int i) (Some nop_command) m))
      else m)"
  by pat_completeness auto
termination
  by (relation "measure (\<lambda>(h, i, count, m). nat (sint count + 1 - i))") auto

declare stage_nop.simps [simp del]

text \<open>
  \<^verbatim>\<open>soem_initialize\<close>. Beside the interface name it takes what the C library decides:
  whether \<^verbatim>\<open>calloc\<close> succeeds, the port of the fresh context, and the pointer
  \<^verbatim>\<open>malloc\<close> returns for the process image (0 when it fails). The result is the handle
  (\<open>None\<close> for \<^verbatim>\<open>NULL\<close>), the store and the resources held after the call. The probe
  exchange works on the handle in place; \<open>h5\<close> is the handle as it left it. The loop that
  reads each slave's inputs after the probe exchange only logs and is left out.
\<close>

definition soem_initialize ::
  "'p ecx_stack \<Rightarrow> bool \<Rightarrow> 'p \<Rightarrow> addr \<Rightarrow> string option \<Rightarrow> mem \<Rightarrow> resource list \<Rightarrow>
   'p soem_handle option \<times> mem \<times> resource list"
where
  "soem_initialize st calloc_ok p0 malloc_ptr ifname m held =
     (if \<not> calloc_ok then (None, m, held)
      else
        let held1 = acquire Handle_memory held;
            h0 = (calloc_handle p0)\<lparr>last_wkc := - 1, last_expected_wkc := 0\<rparr>
        in case ecx_init st (ctxt h0) ifname of (rc, c1) \<Rightarrow>
           if rc = 0 then (None, m, release Handle_memory held1)
           else
             let held2 = acquire Open_port held1 in
             case ecx_config_init st c1 of (slave_count, c2) \<Rightarrow>
             if sint slave_count \<le> 0
             then (let c = ecx_close st c2 in
                   (None, m, release Handle_memory (release Open_port held2)))
             else if malloc_ptr = 0
             then (let c = ecx_close st c2 in
                   (None, m, release Handle_memory (release Open_port held2)))
             else
               let held3 = acquire IOmap_memory held2;
                   m1 = memset m malloc_ptr 0 iomap_size
               in case ecx_config_map_group st c2 malloc_ptr m1 of (actual_size, c3, m2) \<Rightarrow>
                  if sint actual_size \<le> 0
                  then (let c = ecx_close st c3 in
                        (None, m2, release Handle_memory (release IOmap_memory (release Open_port held3))))
                  else if unat actual_size > iomap_size
                  then (let c = ecx_close st c3 in
                        (None, m2, release Handle_memory (release IOmap_memory (release Open_port held3))))
                  else
                    let c4 = ecx_configdc st c3;
                        h4 = h0\<lparr>ctxt := c4, IOmap := malloc_ptr\<rparr>;
                        count = soem_get_slave_count (Some h4);
                        m3 = stage_nop h4 1 count m2
                    in case soem_exchange_process_data st (Some h4) None 0 None 0 2000 m3
                       of (rc, hx, _, m4) \<Rightarrow>
                       let h5 = (case hx of Some h' \<Rightarrow> h' | None \<Rightarrow> h4) in
                       case ecx_statecheck st (ctxt h5) 0 EC_STATE_SAFE_OP (EC_TIMEOUTSTATE * 4)
                       of (_, c6) \<Rightarrow>
                       let c7 = c6\<lparr>slavelist :=
                                  (slavelist c6)(0 := (slavelist c6 0)\<lparr>state := EC_STATE_OPERATIONAL\<rparr>)\<rparr>;
                           c8 = ecx_writestate st c7 0
                       in case ecx_statecheck st c8 0 EC_STATE_OPERATIONAL EC_TIMEOUTSTATE
                          of (_, c9) \<Rightarrow>
                          let group = grouplist0 c9 in
                          (Some (h5\<lparr>ctxt := c9,
                                    output_length := ec_groupt.Obytes group,
                                    input_length := ec_groupt.Ibytes group\<rparr>),
                           m4, held3))"

subsection \<open>Concrete sessions\<close>

text \<open>
  A one-slave session on which the theorems below are exercised. The slave's output
  region is at address 100 and its input region at 200.
\<close>

definition zero_txpdo :: DriveTxPDO where
  "zero_txpdo =
     \<lparr>ActualPosition = 0, AmplifiersEnabled = 0, EndStop = 0, ThermalProtection1 = 0,
      ThermalProtection2 = 0, ForceZero = 0, MotorOn = 0, ClosedLoop = 0, EncoderIndex = 0,
      EncoderValid = 0, SearchingIndex = 0, PositionReached = 0, ErrorCompensation = 0,
      EncoderError = 0, Scanning = 0, LeftEndStop = 0, RightEndStop = 0, ErrorLimit = 0,
      SearchingOptimalFrequency = 0, SafetyTimeout = 0, ExecuteAck = 0, EmergencyStop = 0,
      PositionFail = 0, Slot = 0\<rparr>"

definition zero_health :: soem_health where
  "zero_health =
     \<lparr>slaves_found = 0, group_expected_wkc = 0, health_last_wkc = 0, bytes_out = 0,
      bytes_in = 0, slaves_op = 0, al_status_code = 0\<rparr>"

definition example_slave :: "uint16_t \<Rightarrow> uint32_t \<Rightarrow> uint32_t \<Rightarrow> ec_slavet" where
  "example_slave s ob ib =
     \<lparr>state = s, ALstatuscode = 0, Obytes = ob, outputs = 100, Ibytes = ib, inputs = 200\<rparr>"

definition example_group :: "uint32_t \<Rightarrow> uint32_t \<Rightarrow> uint16_t \<Rightarrow> uint16_t \<Rightarrow> ec_groupt" where
  "example_group ob ib ow iw =
     \<lparr>Obytes = ob, outputs = 100, Ibytes = ib, inputs = 200, outputsWKC = ow, inputsWKC = iw\<rparr>"

definition example_context :: "ec_slavet \<Rightarrow> ec_groupt \<Rightarrow> unit ecx_contextt" where
  "example_context s g = \<lparr>port = (), slavecount = 1, slavelist = (\<lambda>_. s), grouplist0 = g\<rparr>"

definition example_handle :: "ec_slavet \<Rightarrow> ec_groupt \<Rightarrow> unit soem_handle" where
  "example_handle s g =
     \<lparr>ctxt = example_context s g, IOmap = 100, output_length = 20, input_length = 8,
      last_wkc = - 1, last_expected_wkc = 0\<rparr>"

definition example_legacy_handle :: "ec_slavet \<Rightarrow> ec_groupt \<Rightarrow> unit legacy_soem_handle" where
  "example_legacy_handle s g =
     \<lparr>legacy_context = example_context s g, legacy_output_length = 20, legacy_input_length = 8\<rparr>"

definition example_mem :: mem where
  "example_mem =
     (\<lambda>a. if a = 200 then 0xFE else if a = 201 \<or> a = 202 \<or> a = 203 then 0xFF
          else if a = 204 then 0x21 else if a = 207 then 7
          else if 100 \<le> a \<and> a < 120 then 0xAA else 0)"

definition example_command :: DriveRxPDO where
  "example_command =
     \<lparr>Command = [0x44, 0x50, 0x4F, 0x53] @ replicate 28 0, Parameter = - 5,
      Velocity = 0x01020304, Acceleration = 0x0506, Deceleration = 0x0708, Execute = 1\<rparr>"

text \<open>
  A stack with fixed answers: the discovery finds \<open>n\<close> slaves, all in PRE_OP with a
  20-byte output region at 100 and an 8-byte input region at 200; the mapping installs the
  group over these regions with one output and one input contribution and reports \<open>sz\<close>
  bytes; send and receive answer \<open>s\<close> and \<open>r\<close> and move no data; a state check answers
  the state it was asked for.
\<close>

definition example_stack :: "c_int \<Rightarrow> c_int \<Rightarrow> c_int \<Rightarrow> c_int \<Rightarrow> unit ecx_stack" where
  "example_stack n sz s r =
     \<lparr>ecx_init = (\<lambda>c ifname. (1, c)),
      ecx_config_init =
        (\<lambda>c. (n, c\<lparr>slavecount := n, slavelist := (\<lambda>_. example_slave EC_STATE_PRE_OP 20 8)\<rparr>)),
      ecx_config_map_group = (\<lambda>c p m. (sz, c\<lparr>grouplist0 := example_group 20 8 1 1\<rparr>, m)),
      ecx_configdc = (\<lambda>c. c),
      ecx_close = (\<lambda>c. c),
      ecx_readstate = (\<lambda>c. c),
      ecx_writestate = (\<lambda>c i. c),
      ecx_statecheck = (\<lambda>c i reqstate timeout. (reqstate, c)),
      ecx_send_processdata = (\<lambda>c m. (s, c, m)),
      ecx_receive_processdata = (\<lambda>c m timeout. (r, c, m))\<rparr>"

section \<open>Properties\<close>

subsection \<open>Words, bits and bytes\<close>

lemma sint_eq_uint_small: 
  assumes "uint (w :: 32 word) < 2147483648" shows "sint w = uint w"
proof -
  have "(0::int) \<le> uint w" by simp
  then have "- (2 ^ 31) \<le> uint w" by (rule order_trans[rotated]) simp
  moreover have "uint w < 2 ^ 31" using assms by simp
  ultimately have "signed_take_bit 31 (uint w) = uint w"
    by (rule signed_take_bit_int_eq_self)
  then show ?thesis by (simp add: sint_uint)
qed

lemma sint_eq_unat_small:
  assumes "unat (w :: 32 word) < 2147483648" shows "sint w = int (unat w)"
proof -
  have "uint w = int (unat w)" by simp
  moreover have "int (unat w) < 2147483648" using assms by linarith
  ultimately show ?thesis using sint_eq_uint_small[of w] by simp
qed

lemma sint_ge_of_unat:
  assumes "n \<le> unat (w :: 32 word)" "unat w < 2147483648" shows "int n \<le> sint w"
proof -
  have "sint w = int (unat w)" using assms(2) by (rule sint_eq_unat_small)
  with assms(1) show ?thesis by linarith
qed

lemma sint_lt_of_unat:
  assumes "unat (w :: 32 word) < n" "n \<le> 2147483648" shows "sint w < int n"
proof -
  have "unat w < 2147483648" using assms by linarith
  then have "sint w = int (unat w)" by (rule sint_eq_unat_small)
  with assms(1) show ?thesis by linarith
qed

lemma flag_bit: "drop_bit k (b::8 word) AND 1 = of_bool (bit b k)"
  by (simp add: and_one_eq mod_2_eq_odd bit_iff_odd_drop_bit)

lemma bit_load_le32:
  "bit (load_le32 m p) n \<longleftrightarrow> n < 32 \<and> bit (m (p + n div 8)) (n mod 8)"
proof -
  consider "n < 8" | "8 \<le> n" "n < 16" | "16 \<le> n" "n < 24" | "24 \<le> n" "n < 32" | "32 \<le> n"
    by linarith
  then show ?thesis
  proof cases
    case 1 then show ?thesis unfolding load_le32_def by (simp add: bit_simps)
  next
    case 2 
    then have "n div 8 = 1" "n mod 8 = n - 8" by presburger+
    with 2 show ?thesis unfolding load_le32_def by (auto simp add: bit_simps dest: bit_imp_le_length)
  next
    case 3
    then have "n div 8 = 2" "n mod 8 = n - 16" by presburger+
    with 3 show ?thesis unfolding load_le32_def by (auto simp add: bit_simps dest: bit_imp_le_length)
  next
    case 4
    then have "n div 8 = 3" "n mod 8 = n - 24" by presburger+
    with 4 show ?thesis unfolding load_le32_def by (auto simp add: bit_simps dest: bit_imp_le_length)
  next
    case 5 then show ?thesis unfolding load_le32_def by (auto simp add: bit_simps dest: bit_imp_le_length)
  qed
qed

lemma load_le32_cong:
  "(\<And>k. k < 4 \<Longrightarrow> m' (p + k) = m (p + k)) \<Longrightarrow> load_le32 m' p = load_le32 m p"
proof -
  assume a: "\<And>k. k < 4 \<Longrightarrow> m' (p + k) = m (p + k)"
  have "m' (p + 0) = m (p + 0)" "m' (p + 1) = m (p + 1)" "m' (p + 2) = m (p + 2)" "m' (p + 3) = m (p + 3)"
    by (rule a, simp)+
  then show ?thesis by (simp add: load_le32_def)
qed

subsection \<open>The status record\<close>

lemma read_txpdo_success:
  assumes idx: "0 < sint i" "sint i \<le> sint (slavecount (ctxt h))"
    and sl: "slave = slavelist (ctxt h) (nat (sint i))"
    and ptr: "ec_slavet.inputs slave \<noteq> 0"
    and len: "8 \<le> sint (ec_slavet.Ibytes slave)"
    and buf: "buf = ec_slavet.inputs slave"
  shows "soem_read_txpdo (Some h) i (Some r0) m =
     (1, Some (r0\<lparr>
         ActualPosition := load_le32 m buf,
         AmplifiersEnabled := of_bool (bit (m (buf + 4)) 0),
         EndStop := of_bool (bit (m (buf + 4)) 1),
         ThermalProtection1 := of_bool (bit (m (buf + 4)) 2),
         ThermalProtection2 := of_bool (bit (m (buf + 4)) 3),
         ForceZero := of_bool (bit (m (buf + 4)) 4),
         MotorOn := of_bool (bit (m (buf + 4)) 5),
         ClosedLoop := of_bool (bit (m (buf + 4)) 6),
         EncoderIndex := of_bool (bit (m (buf + 4)) 7),
         EncoderValid := of_bool (bit (m (buf + 5)) 0),
         SearchingIndex := of_bool (bit (m (buf + 5)) 1),
         PositionReached := of_bool (bit (m (buf + 5)) 2),
         ErrorCompensation := of_bool (bit (m (buf + 5)) 3),
         EncoderError := of_bool (bit (m (buf + 5)) 4),
         Scanning := of_bool (bit (m (buf + 5)) 5),
         LeftEndStop := of_bool (bit (m (buf + 5)) 6),
         RightEndStop := of_bool (bit (m (buf + 5)) 7),
         ErrorLimit := of_bool (bit (m (buf + 6)) 0),
         SearchingOptimalFrequency := of_bool (bit (m (buf + 6)) 1),
         SafetyTimeout := of_bool (bit (m (buf + 6)) 2),
         ExecuteAck := of_bool (bit (m (buf + 6)) 3),
         EmergencyStop := of_bool (bit (m (buf + 6)) 4),
         PositionFail := of_bool (bit (m (buf + 6)) 5),
         Slot := m (buf + 7)\<rparr>))"
proof -
  have g1: "\<not> (sint i \<le> 0 \<or> sint i > sint (slavecount (ctxt h)))" using idx by simp
  have g2: "\<not> sint (ec_slavet.Ibytes slave) < IO_TX_BYTES" using len by (simp add: IO_TX_BYTES_def)
  have g3: "(buf = 0) = False" using ptr buf by simp
  show ?thesis unfolding soem_read_txpdo_def
    by (simp only: option.case g1 g2 g3 if_False Let_def sl[symmetric] buf[symmetric] flag_bit refl)
qed

lemma read_txpdo_short:
  assumes "sint (ec_slavet.Ibytes (slavelist (ctxt h) (nat (sint i)))) < 8"
  shows "soem_read_txpdo (Some h) i out m = (0, out)"
  using assms by (simp add: soem_read_txpdo_def IO_TX_BYTES_def Let_def split: option.splits)


lemma read_txpdo_cong:
  assumes idx: "0 < sint i" "sint i \<le> sint (slavecount (ctxt h))"
    and sl: "slave = slavelist (ctxt h) (nat (sint i))"
    and ptr: "ec_slavet.inputs slave \<noteq> 0"
    and len: "8 \<le> sint (ec_slavet.Ibytes slave)"
    and buf: "buf = ec_slavet.inputs slave"
    and agree: "\<And>k. k < 8 \<Longrightarrow> m' (buf + k) = m (buf + k)"
  shows "soem_read_txpdo (Some h) i (Some r0) m' = soem_read_txpdo (Some h) i (Some r0) m"
proof -
  have "load_le32 m' buf = load_le32 m buf"
    by (rule load_le32_cong) (simp add: agree)
  moreover have "m' (buf + 4) = m (buf + 4)" "m' (buf + 5) = m (buf + 5)"
    "m' (buf + 6) = m (buf + 6)" "m' (buf + 7) = m (buf + 7)"
    by (rule agree, simp)+
  ultimately show ?thesis
    by (simp only: read_txpdo_success [OF idx sl ptr len buf])
qed

text \<open>
  C2. On a slave whose input region has at least 8 bytes (and a length that the cast to
  \<^verbatim>\<open>int\<close> keeps, below \<open>2 ^ 31\<close>), \<^verbatim>\<open>soem_read_txpdo\<close> returns 1 and a record in
  which bit \<open>n\<close> of ActualPosition is bit \<open>n mod 8\<close> of byte \<open>n div 8\<close> of the region
  (bytes 0 to 3, least significant first), the 22 flags are 1 or 0 as bits 0 to 7 of
  byte 4, bits 0 to 7 of byte 5 and bits 0 to 5 of byte 6 are set or not, in the order of
  the table, and Slot is byte 7. The result is the same in every store that agrees with
  this one on bytes 0 to 7 of the region. On a slave whose input region is shorter than
  8 bytes the call returns 0 with the record unchanged, whatever the store holds.
\<close>

theorem unpack_status_layout:
  fixes h :: "'p soem_handle"
  assumes idx: "0 < sint i" "sint i \<le> sint (slavecount (ctxt h))"
    and sl: "slave = slavelist (ctxt h) (nat (sint i))"
    and buf: "buf = ec_slavet.inputs slave"
  shows
    "(buf \<noteq> 0 \<and> 8 \<le> unat (ec_slavet.Ibytes slave) \<and> unat (ec_slavet.Ibytes slave) < 2 ^ 31 \<longrightarrow>
        (\<exists>r. soem_read_txpdo (Some h) i (Some r0) m = (1, Some r) \<and>
           (\<forall>n. bit (ActualPosition r) n \<longleftrightarrow> n < 32 \<and> bit (m (buf + n div 8)) (n mod 8)) \<and>
           AmplifiersEnabled r = of_bool (bit (m (buf + 4)) 0) \<and>
           EndStop r = of_bool (bit (m (buf + 4)) 1) \<and>
           ThermalProtection1 r = of_bool (bit (m (buf + 4)) 2) \<and>
           ThermalProtection2 r = of_bool (bit (m (buf + 4)) 3) \<and>
           ForceZero r = of_bool (bit (m (buf + 4)) 4) \<and>
           MotorOn r = of_bool (bit (m (buf + 4)) 5) \<and>
           ClosedLoop r = of_bool (bit (m (buf + 4)) 6) \<and>
           EncoderIndex r = of_bool (bit (m (buf + 4)) 7) \<and>
           EncoderValid r = of_bool (bit (m (buf + 5)) 0) \<and>
           SearchingIndex r = of_bool (bit (m (buf + 5)) 1) \<and>
           PositionReached r = of_bool (bit (m (buf + 5)) 2) \<and>
           ErrorCompensation r = of_bool (bit (m (buf + 5)) 3) \<and>
           EncoderError r = of_bool (bit (m (buf + 5)) 4) \<and>
           Scanning r = of_bool (bit (m (buf + 5)) 5) \<and>
           LeftEndStop r = of_bool (bit (m (buf + 5)) 6) \<and>
           RightEndStop r = of_bool (bit (m (buf + 5)) 7) \<and>
           ErrorLimit r = of_bool (bit (m (buf + 6)) 0) \<and>
           SearchingOptimalFrequency r = of_bool (bit (m (buf + 6)) 1) \<and>
           SafetyTimeout r = of_bool (bit (m (buf + 6)) 2) \<and>
           ExecuteAck r = of_bool (bit (m (buf + 6)) 3) \<and>
           EmergencyStop r = of_bool (bit (m (buf + 6)) 4) \<and>
           PositionFail r = of_bool (bit (m (buf + 6)) 5) \<and>
           Slot r = m (buf + 7)) \<and>
        (\<forall>m'. (\<forall>k<8. m' (buf + k) = m (buf + k)) \<longrightarrow>
           soem_read_txpdo (Some h) i (Some r0) m' = soem_read_txpdo (Some h) i (Some r0) m)) \<and>
     (unat (ec_slavet.Ibytes slave) < 8 \<longrightarrow>
        (\<forall>m'. soem_read_txpdo (Some h) i (Some r0) m' = (0, Some r0)))"
proof (intro conjI impI)
  assume a: "buf \<noteq> 0 \<and> 8 \<le> unat (ec_slavet.Ibytes slave) \<and> unat (ec_slavet.Ibytes slave) < 2 ^ 31"
  then have len: "8 \<le> sint (ec_slavet.Ibytes slave)"
    using sint_ge_of_unat [of 8 "ec_slavet.Ibytes slave"] by simp
  from a buf have ptr: "ec_slavet.inputs slave \<noteq> 0" by simp
  note ok = read_txpdo_success [OF idx sl ptr len buf]
  show "\<exists>r. soem_read_txpdo (Some h) i (Some r0) m = (1, Some r) \<and>
           (\<forall>n. bit (ActualPosition r) n \<longleftrightarrow> n < 32 \<and> bit (m (buf + n div 8)) (n mod 8)) \<and>
           AmplifiersEnabled r = of_bool (bit (m (buf + 4)) 0) \<and>
           EndStop r = of_bool (bit (m (buf + 4)) 1) \<and>
           ThermalProtection1 r = of_bool (bit (m (buf + 4)) 2) \<and>
           ThermalProtection2 r = of_bool (bit (m (buf + 4)) 3) \<and>
           ForceZero r = of_bool (bit (m (buf + 4)) 4) \<and>
           MotorOn r = of_bool (bit (m (buf + 4)) 5) \<and>
           ClosedLoop r = of_bool (bit (m (buf + 4)) 6) \<and>
           EncoderIndex r = of_bool (bit (m (buf + 4)) 7) \<and>
           EncoderValid r = of_bool (bit (m (buf + 5)) 0) \<and>
           SearchingIndex r = of_bool (bit (m (buf + 5)) 1) \<and>
           PositionReached r = of_bool (bit (m (buf + 5)) 2) \<and>
           ErrorCompensation r = of_bool (bit (m (buf + 5)) 3) \<and>
           EncoderError r = of_bool (bit (m (buf + 5)) 4) \<and>
           Scanning r = of_bool (bit (m (buf + 5)) 5) \<and>
           LeftEndStop r = of_bool (bit (m (buf + 5)) 6) \<and>
           RightEndStop r = of_bool (bit (m (buf + 5)) 7) \<and>
           ErrorLimit r = of_bool (bit (m (buf + 6)) 0) \<and>
           SearchingOptimalFrequency r = of_bool (bit (m (buf + 6)) 1) \<and>
           SafetyTimeout r = of_bool (bit (m (buf + 6)) 2) \<and>
           ExecuteAck r = of_bool (bit (m (buf + 6)) 3) \<and>
           EmergencyStop r = of_bool (bit (m (buf + 6)) 4) \<and>
           PositionFail r = of_bool (bit (m (buf + 6)) 5) \<and>
           Slot r = m (buf + 7)"
    by (simp only: ok) (simp add: bit_load_le32)
  show "\<forall>m'. (\<forall>k<8. m' (buf + k) = m (buf + k)) \<longrightarrow>
           soem_read_txpdo (Some h) i (Some r0) m' = soem_read_txpdo (Some h) i (Some r0) m"
    using read_txpdo_cong [OF idx sl ptr len buf] by blast
next
  assume "unat (ec_slavet.Ibytes slave) < 8"
  then have "sint (ec_slavet.Ibytes slave) < 8"
    using sint_lt_of_unat [of "ec_slavet.Ibytes slave" 8] by simp
  then show "\<forall>m'. soem_read_txpdo (Some h) i (Some r0) m' = (0, Some r0)"
    using read_txpdo_short [of h i] sl by simp
qed

theorem unpack_status_layout_witness:
  "(\<exists>r. soem_read_txpdo (Some (example_handle (example_slave 8 20 8) (example_group 20 8 1 1))) 1
          (Some zero_txpdo) example_mem = (1, Some r) \<and>
        ActualPosition r = - 2 \<and> AmplifiersEnabled r = 1 \<and> EndStop r = 0 \<and> MotorOn r = 1 \<and>
        EncoderValid r = 0 \<and> Slot r = 7) \<and>
   soem_read_txpdo (Some (example_handle (example_slave 8 20 7) (example_group 20 7 1 1))) 1
     (Some zero_txpdo) example_mem = (0, Some zero_txpdo)"
proof -
  let ?s = "example_slave 8 20 8" and ?t = "example_slave 8 20 7"
  let ?h = "example_handle ?s (example_group 20 8 1 1)"
  let ?k = "example_handle ?t (example_group 20 7 1 1)"
  have i1: "0 < sint (1 :: c_int)" by simp
  have i2: "sint (1 :: c_int) \<le> sint (slavecount (ctxt ?h))"
    by (simp add: example_handle_def example_context_def)
  have i3: "?s = slavelist (ctxt ?h) (nat (sint (1 :: c_int)))"
    by (simp add: example_handle_def example_context_def)
  have i4: "200 = ec_slavet.inputs ?s" by (simp add: example_slave_def)
  have a: "(200 :: nat) \<noteq> 0 \<and> 8 \<le> unat (ec_slavet.Ibytes ?s) \<and> unat (ec_slavet.Ibytes ?s) < 2 ^ 31"
    by (simp add: example_slave_def)
  have j2: "sint (1 :: c_int) \<le> sint (slavecount (ctxt ?k))"
    by (simp add: example_handle_def example_context_def)
  have j3: "?t = slavelist (ctxt ?k) (nat (sint (1 :: c_int)))"
    by (simp add: example_handle_def example_context_def)
  have j4: "200 = ec_slavet.inputs ?t" by (simp add: example_slave_def)
  have b: "unat (ec_slavet.Ibytes ?t) < 8" by (simp add: example_slave_def)
  from unpack_status_layout [OF i1 i2 i3 i4, of zero_txpdo example_mem] a
  obtain r where r: "soem_read_txpdo (Some ?h) 1 (Some zero_txpdo) example_mem = (1, Some r)"
    and bits: "\<forall>n. bit (ActualPosition r) n \<longleftrightarrow> n < 32 \<and> bit (example_mem (200 + n div 8)) (n mod 8)"
    and f: "AmplifiersEnabled r = of_bool (bit (example_mem (200 + 4)) 0)"
      "EndStop r = of_bool (bit (example_mem (200 + 4)) 1)"
      "MotorOn r = of_bool (bit (example_mem (200 + 4)) 5)"
      "EncoderValid r = of_bool (bit (example_mem (200 + 5)) 0)"
      "Slot r = example_mem (200 + 7)"
    by blast
  have pos: "ActualPosition r = - 2"
  proof -
    have "ec_slavet.inputs ?s \<noteq> 0" "8 \<le> sint (ec_slavet.Ibytes ?s)"
      by (simp_all add: example_slave_def)
    from read_txpdo_success [OF i1 i2 i3 this i4, of zero_txpdo example_mem] r
    have "ActualPosition r = load_le32 example_mem 200" by auto
    also have "\<dots> = - 2" by (simp add: load_le32_def example_mem_def)
    finally show ?thesis .
  qed
  have vals: "AmplifiersEnabled r = 1" "EndStop r = 0" "MotorOn r = 1" "EncoderValid r = 0" "Slot r = 7"
    using f by (simp_all add: example_mem_def)
  from unpack_status_layout [OF i1 j2 j3 j4, of zero_txpdo example_mem] b
  have short: "soem_read_txpdo (Some ?k) 1 (Some zero_txpdo) example_mem = (0, Some zero_txpdo)"
    by blast
  from r pos vals short show ?thesis by blast
qed

subsection \<open>The command record\<close>

lemma write_rxpdo_short:
  assumes "sint (ec_slavet.Obytes (slavelist (ctxt h) (nat (sint i)))) < 20"
  shows "soem_write_rxpdo (Some h) i inp m = (0, m)"
  using assms by (simp add: soem_write_rxpdo_def IO_RX_BYTES_def Let_def split: option.splits)

lemma write_rxpdo_success:
  assumes idx: "0 < sint i" "sint i \<le> sint (slavecount (ctxt h))"
    and sl: "slave = slavelist (ctxt h) (nat (sint i))"
    and ptr: "ec_slavet.outputs slave \<noteq> 0"
    and len: "20 \<le> sint (ec_slavet.Obytes slave)"
    and buf: "buf = ec_slavet.outputs slave"
  shows "soem_write_rxpdo (Some h) i (Some rx) m =
     (1, (store_le16
            (store_le16
               (store_le32 (store_le32 (memcpy_in m buf (Command rx) 4) (buf + 4) (Parameter rx))
                  (buf + 8) (Velocity rx))
               (buf + 12) (Acceleration rx))
            (buf + 14) (Deceleration rx))
         (buf + 16 := Execute rx))"
proof -
  have g1: "\<not> (sint i \<le> 0 \<or> sint i > sint (slavecount (ctxt h)))" using idx by simp
  have g2: "\<not> sint (ec_slavet.Obytes slave) < IO_RX_BYTES" using len by (simp add: IO_RX_BYTES_def)
  have g3: "(buf = 0) = False" using ptr buf by simp
  show ?thesis unfolding soem_write_rxpdo_def
    by (simp only: option.case g1 g2 g3 if_False Let_def sl[symmetric] buf[symmetric] refl)
qed

lemma lt4_cases: "k < (4::nat) \<Longrightarrow> k = 0 \<or> k = 1 \<or> k = 2 \<or> k = 3" by arith
lemma lt2_cases: "k < (2::nat) \<Longrightarrow> k = 0 \<or> k = 1" by arith

lemma packed_bytes:
  fixes buf :: nat and m :: mem and cmd :: "uint8_t list" and par vel :: uint32_t
    and acc dec :: uint16_t and ex :: uint8_t
  defines "m' \<equiv> (store_le16
            (store_le16
               (store_le32 (store_le32 (memcpy_in m buf cmd 4) (buf + 4) par)
                  (buf + 8) vel)
               (buf + 12) acc)
            (buf + 14) dec)
         (buf + 16 := ex)"
  shows "\<forall>k<4. m' (buf + k) = cmd ! k"
    and "\<forall>k<4. m' (buf + 4 + k) = ucast (drop_bit (8 * k) par)"
    and "\<forall>k<4. m' (buf + 8 + k) = ucast (drop_bit (8 * k) vel)"
    and "\<forall>k<2. m' (buf + 12 + k) = ucast (drop_bit (8 * k) acc)"
    and "\<forall>k<2. m' (buf + 14 + k) = ucast (drop_bit (8 * k) dec)"
    and "m' (buf + 16) = ex"
    and "\<forall>a. a < buf \<or> buf + 17 \<le> a \<longrightarrow> m' a = m a"
  unfolding m'_def
  by (auto simp add: store_le32_def store_le16_def memcpy_in_def dest!: lt4_cases lt2_cases)

lemma load_store_le32: "load_le32 (store_le32 m p w) p = w"
proof (rule bit_word_eqI)
  fix n assume "n < LENGTH(32)"
  then have n: "n < 32" by simp
  then consider "n < 8" | "8 \<le> n" "n < 16" | "16 \<le> n" "n < 24" | "24 \<le> n" "n < 32"
    by linarith
  then show "bit (load_le32 (store_le32 m p w) p) n = bit w n"
  proof cases
    case 1 then show ?thesis by (auto simp add: bit_load_le32 store_le32_def bit_simps)
  next
    case 2 
    then have "n div 8 = 1" "n mod 8 = n - 8" by presburger+
    with 2 show ?thesis by (auto simp add: bit_load_le32 store_le32_def bit_simps)
  next
    case 3
    then have "n div 8 = 2" "n mod 8 = n - 16" by presburger+
    with 3 show ?thesis by (auto simp add: bit_load_le32 store_le32_def bit_simps)
  next
    case 4
    then have "n div 8 = 3" "n mod 8 = n - 24" by presburger+
    with 4 show ?thesis by (auto simp add: bit_load_le32 store_le32_def bit_simps)
  qed
qed

text \<open>
  C3. On a slave whose output region has at least 20 bytes (and a length that the cast
  to \<^verbatim>\<open>int\<close> keeps, below \<open>2 ^ 31\<close>), \<^verbatim>\<open>soem_write_rxpdo\<close> returns 1 and writes
  the 17 bytes at offsets 0 to 16: the four command bytes, the parameter and the velocity
  as four little-endian bytes each at 4 and 8 (read back by \<open>load_le32\<close>), acceleration
  and deceleration as two bytes each at 12 and 14, the execute flag at 16. Every other
  byte of the store, bytes 17 to 19 of the region among them, keeps its value. On a slave
  whose output region is shorter than 20 bytes the call returns 0 and the store is the
  one it was given.
\<close>

theorem pack_command_layout:
  fixes h :: "'p soem_handle"
  assumes idx: "0 < sint i" "sint i \<le> sint (slavecount (ctxt h))"
    and sl: "slave = slavelist (ctxt h) (nat (sint i))"
    and buf: "buf = ec_slavet.outputs slave"
  shows
    "(buf \<noteq> 0 \<and> 20 \<le> unat (ec_slavet.Obytes slave) \<and> unat (ec_slavet.Obytes slave) < 2 ^ 31 \<longrightarrow>
        (\<exists>m'. soem_write_rxpdo (Some h) i (Some rx) m = (1, m') \<and>
           (\<forall>k<4. m' (buf + k) = Command rx ! k) \<and>
           (\<forall>k<4. m' (buf + 4 + k) = ucast (drop_bit (8 * k) (Parameter rx))) \<and>
           (\<forall>k<4. m' (buf + 8 + k) = ucast (drop_bit (8 * k) (Velocity rx))) \<and>
           (\<forall>k<2. m' (buf + 12 + k) = ucast (drop_bit (8 * k) (Acceleration rx))) \<and>
           (\<forall>k<2. m' (buf + 14 + k) = ucast (drop_bit (8 * k) (Deceleration rx))) \<and>
           m' (buf + 16) = Execute rx \<and>
           load_le32 m' (buf + 4) = Parameter rx \<and>
           load_le32 m' (buf + 8) = Velocity rx \<and>
           (\<forall>a. a < buf \<or> buf + 17 \<le> a \<longrightarrow> m' a = m a))) \<and>
     (unat (ec_slavet.Obytes slave) < 20 \<longrightarrow> soem_write_rxpdo (Some h) i (Some rx) m = (0, m))"
proof (intro conjI impI)
  assume a: "buf \<noteq> 0 \<and> 20 \<le> unat (ec_slavet.Obytes slave) \<and> unat (ec_slavet.Obytes slave) < 2 ^ 31"
  then have len: "20 \<le> sint (ec_slavet.Obytes slave)"
    using sint_ge_of_unat [of 20 "ec_slavet.Obytes slave"] by simp
  from a buf have ptr: "ec_slavet.outputs slave \<noteq> 0" by simp
  define m' where "m' =
    (store_le16 (store_le16
        (store_le32 (store_le32 (memcpy_in m buf (Command rx) 4) (buf + 4) (Parameter rx))
           (buf + 8) (Velocity rx))
        (buf + 12) (Acceleration rx))
      (buf + 14) (Deceleration rx))
    (buf + 16 := Execute rx)"
  have res: "soem_write_rxpdo (Some h) i (Some rx) m = (1, m')"
    unfolding m'_def by (rule write_rxpdo_success [OF idx sl ptr len buf])
  note bytes = packed_bytes [where m = m and buf = buf and cmd = "Command rx"
      and par = "Parameter rx" and vel = "Velocity rx" and acc = "Acceleration rx"
      and dec = "Deceleration rx" and ex = "Execute rx", folded m'_def]
  have par: "load_le32 m' (buf + 4) = Parameter rx"
  proof -
    have "load_le32 m' (buf + 4) = load_le32 (store_le32 m' (buf + 4) (Parameter rx)) (buf + 4)"
      by (rule load_le32_cong [symmetric])
         (use bytes(2) in \<open>auto simp add: store_le32_def dest!: lt4_cases\<close>)
    then show ?thesis by (simp only: load_store_le32)
  qed
  have vel: "load_le32 m' (buf + 8) = Velocity rx"
  proof -
    have "load_le32 m' (buf + 8) = load_le32 (store_le32 m' (buf + 8) (Velocity rx)) (buf + 8)"
      by (rule load_le32_cong [symmetric])
         (use bytes(3) in \<open>auto simp add: store_le32_def dest!: lt4_cases\<close>)
    then show ?thesis by (simp only: load_store_le32)
  qed
  show "\<exists>m'. soem_write_rxpdo (Some h) i (Some rx) m = (1, m') \<and>
           (\<forall>k<4. m' (buf + k) = Command rx ! k) \<and>
           (\<forall>k<4. m' (buf + 4 + k) = ucast (drop_bit (8 * k) (Parameter rx))) \<and>
           (\<forall>k<4. m' (buf + 8 + k) = ucast (drop_bit (8 * k) (Velocity rx))) \<and>
           (\<forall>k<2. m' (buf + 12 + k) = ucast (drop_bit (8 * k) (Acceleration rx))) \<and>
           (\<forall>k<2. m' (buf + 14 + k) = ucast (drop_bit (8 * k) (Deceleration rx))) \<and>
           m' (buf + 16) = Execute rx \<and>
           load_le32 m' (buf + 4) = Parameter rx \<and>
           load_le32 m' (buf + 8) = Velocity rx \<and>
           (\<forall>a. a < buf \<or> buf + 17 \<le> a \<longrightarrow> m' a = m a)"
    using res bytes par vel by blast
next
  assume "unat (ec_slavet.Obytes slave) < 20"
  then have "sint (ec_slavet.Obytes slave) < 20"
    using sint_lt_of_unat [of "ec_slavet.Obytes slave" 20] by simp
  then show "soem_write_rxpdo (Some h) i (Some rx) m = (0, m)"
    using write_rxpdo_short [of h i] sl by simp
qed

theorem pack_command_layout_witness:
  "(\<exists>m'. soem_write_rxpdo (Some (example_handle (example_slave 8 20 8) (example_group 20 8 1 1))) 1
          (Some example_command) example_mem = (1, m') \<and>
        m' 100 = 0x44 \<and> m' 103 = 0x53 \<and> m' 104 = 0xFB \<and> m' 107 = 0xFF \<and>
        m' 108 = 0x04 \<and> m' 111 = 0x01 \<and> m' 112 = 0x06 \<and> m' 113 = 0x05 \<and>
        m' 114 = 0x08 \<and> m' 115 = 0x07 \<and> m' 116 = 1 \<and>
        m' 117 = 0xAA \<and> m' 118 = 0xAA \<and> m' 119 = 0xAA \<and> m' 99 = 0) \<and>
   soem_write_rxpdo (Some (example_handle (example_slave 8 19 8) (example_group 19 8 1 1))) 1
     (Some example_command) example_mem = (0, example_mem)"
proof -
  let ?s = "example_slave 8 20 8" and ?t = "example_slave 8 19 8"
  let ?h = "example_handle ?s (example_group 20 8 1 1)"
  let ?k = "example_handle ?t (example_group 19 8 1 1)"
  have i1: "0 < sint (1 :: c_int)" by simp
  have i2: "sint (1 :: c_int) \<le> sint (slavecount (ctxt ?h))"
    by (simp add: example_handle_def example_context_def)
  have i3: "?s = slavelist (ctxt ?h) (nat (sint (1 :: c_int)))"
    by (simp add: example_handle_def example_context_def)
  have i4: "100 = ec_slavet.outputs ?s" by (simp add: example_slave_def)
  have a: "(100 :: nat) \<noteq> 0 \<and> 20 \<le> unat (ec_slavet.Obytes ?s) \<and> unat (ec_slavet.Obytes ?s) < 2 ^ 31"
    by (simp add: example_slave_def)
  have j2: "sint (1 :: c_int) \<le> sint (slavecount (ctxt ?k))"
    by (simp add: example_handle_def example_context_def)
  have j3: "?t = slavelist (ctxt ?k) (nat (sint (1 :: c_int)))"
    by (simp add: example_handle_def example_context_def)
  have j4: "100 = ec_slavet.outputs ?t" by (simp add: example_slave_def)
  have b: "unat (ec_slavet.Obytes ?t) < 20" by (simp add: example_slave_def)
  from pack_command_layout [OF i1 i2 i3 i4, of example_command example_mem] a
  obtain m' where r: "soem_write_rxpdo (Some ?h) 1 (Some example_command) example_mem = (1, m')"
    and c: "\<forall>k<4. m' (100 + k) = Command example_command ! k"
    and p: "\<forall>k<4. m' (100 + 4 + k) = ucast (drop_bit (8 * k) (Parameter example_command))"
    and v: "\<forall>k<4. m' (100 + 8 + k) = ucast (drop_bit (8 * k) (Velocity example_command))"
    and ac: "\<forall>k<2. m' (100 + 12 + k) = ucast (drop_bit (8 * k) (Acceleration example_command))"
    and de: "\<forall>k<2. m' (100 + 14 + k) = ucast (drop_bit (8 * k) (Deceleration example_command))"
    and ex: "m' (100 + 16) = Execute example_command"
    and fr: "\<forall>a. a < 100 \<or> 100 + 17 \<le> a \<longrightarrow> m' a = example_mem a"
    by blast
  have "m' 100 = 0x44" "m' 103 = 0x53"
    using c [rule_format, of 0] c [rule_format, of 3] by (simp_all add: example_command_def)
  moreover have "m' 104 = 0xFB" "m' 107 = 0xFF"
    using p [rule_format, of 0] p [rule_format, of 3] by (simp_all add: example_command_def)
  moreover have "m' 108 = 0x04" "m' 111 = 0x01"
    using v [rule_format, of 0] v [rule_format, of 3] by (simp_all add: example_command_def)
  moreover have "m' 112 = 0x06" "m' 113 = 0x05"
    using ac [rule_format, of 0] ac [rule_format, of 1] by (simp_all add: example_command_def)
  moreover have "m' 114 = 0x08" "m' 115 = 0x07"
    using de [rule_format, of 0] de [rule_format, of 1] by (simp_all add: example_command_def)
  moreover have "m' 116 = 1" using ex by (simp add: example_command_def)
  moreover have "m' 117 = 0xAA" "m' 118 = 0xAA" "m' 119 = 0xAA" "m' 99 = 0"
    using fr [rule_format, of 117] fr [rule_format, of 118] fr [rule_format, of 119]
      fr [rule_format, of 99] by (simp_all add: example_mem_def)
  moreover from pack_command_layout [OF i1 j2 j3 j4, of example_command example_mem] b
  have "soem_write_rxpdo (Some ?k) 1 (Some example_command) example_mem = (0, example_mem)"
    by blast
  ultimately show ?thesis using r by blast
qed

subsection \<open>Failing reads\<close>

lemma read_txpdo_cases:
  "soem_read_txpdo handle i out m = (0, out) \<or> fst (soem_read_txpdo handle i out m) = 1"
proof (cases handle)
  case None
  then show ?thesis by (simp add: soem_read_txpdo_def)
next
  case (Some h)
  show ?thesis
  proof (cases out)
    case None
    with Some show ?thesis by (simp add: soem_read_txpdo_def)
  next
    case out: (Some r)
    show ?thesis
    proof (cases "0 < sint i \<and> sint i \<le> sint (slavecount (ctxt h)) \<and>
        ec_slavet.inputs (slavelist (ctxt h) (nat (sint i))) \<noteq> 0 \<and>
        8 \<le> sint (ec_slavet.Ibytes (slavelist (ctxt h) (nat (sint i))))")
      case True
      then have "fst (soem_read_txpdo (Some h) i (Some r) m) = 1"
        by (subst read_txpdo_success [OF _ _ refl _ _ refl]) simp_all
      with Some out show ?thesis by simp
    next
      case False
      then have "soem_read_txpdo (Some h) i (Some r) m = (0, Some r)"
        unfolding soem_read_txpdo_def IO_TX_BYTES_def
        by (simp only: option.case Let_def not_le not_less de_Morgan_conj not_not split: if_splits)
           auto
      with Some out show ?thesis by simp
    qed
  qed
qed

text \<open>
  C10. Every failing call of \<^verbatim>\<open>soem_read_txpdo\<close> returns 0 and leaves the caller's
  record as it was: with a null handle, with a null record, with a slave index that is
  not positive or exceeds the slave count, with a null input-region pointer, and with an
  input region shorter than 8 bytes. The function returns 0 or 1, and whenever it returns
  0 the record is unchanged.
\<close>

theorem read_txpdo_failure_keeps_record:
  fixes h :: "'p soem_handle"
  shows
    "soem_read_txpdo None i out m = (0, out) \<and>
     soem_read_txpdo (Some h) i None m = (0, None) \<and>
     (sint i \<le> 0 \<or> sint (slavecount (ctxt h)) < sint i \<longrightarrow>
        soem_read_txpdo (Some h) i out m = (0, out)) \<and>
     (ec_slavet.inputs (slavelist (ctxt h) (nat (sint i))) = 0 \<longrightarrow>
        soem_read_txpdo (Some h) i out m = (0, out)) \<and>
     (unat (ec_slavet.Ibytes (slavelist (ctxt h) (nat (sint i)))) < 8 \<longrightarrow>
        soem_read_txpdo (Some h) i out m = (0, out)) \<and>
     (\<forall>handle :: 'p soem_handle option. fst (soem_read_txpdo handle i out m) = 0 \<or>
          fst (soem_read_txpdo handle i out m) = 1) \<and>
     (\<forall>handle :: 'p soem_handle option. fst (soem_read_txpdo handle i out m) = 0 \<longrightarrow>
          snd (soem_read_txpdo handle i out m) = out)"
proof (intro conjI impI allI)
  show "soem_read_txpdo None i out m = (0, out)"
    by (simp add: soem_read_txpdo_def)
  show "soem_read_txpdo (Some h) i None m = (0, None)"
    by (simp add: soem_read_txpdo_def)
  show "soem_read_txpdo (Some h) i out m = (0, out)"
    if "sint i \<le> 0 \<or> sint (slavecount (ctxt h)) < sint i"
    using that by (simp add: soem_read_txpdo_def split: option.splits)
  show "soem_read_txpdo (Some h) i out m = (0, out)"
    if "ec_slavet.inputs (slavelist (ctxt h) (nat (sint i))) = 0"
    using that by (simp add: soem_read_txpdo_def Let_def split: option.splits)
  show "soem_read_txpdo (Some h) i out m = (0, out)"
    if "unat (ec_slavet.Ibytes (slavelist (ctxt h) (nat (sint i)))) < 8"
  proof -
    have "sint (ec_slavet.Ibytes (slavelist (ctxt h) (nat (sint i)))) < 8"
      using that sint_lt_of_unat [of "ec_slavet.Ibytes (slavelist (ctxt h) (nat (sint i)))" 8]
      by simp
    then show ?thesis by (rule read_txpdo_short)
  qed
  show "fst (soem_read_txpdo handle i out m) = 0 \<or> fst (soem_read_txpdo handle i out m) = 1"
    for handle :: "'p soem_handle option"
    using read_txpdo_cases [of handle i out m] by auto
  show "snd (soem_read_txpdo handle i out m) = out"
    if "fst (soem_read_txpdo handle i out m) = 0" for handle :: "'p soem_handle option"
    using that read_txpdo_cases [of handle i out m] by auto
qed

theorem read_txpdo_failure_keeps_record_witness:
  "soem_read_txpdo (Some (example_handle (example_slave 8 20 8) (example_group 20 8 1 1))) 0
     (Some zero_txpdo) example_mem = (0, Some zero_txpdo) \<and>
   soem_read_txpdo (Some (example_handle (example_slave 8 20 8) (example_group 20 8 1 1))) 2
     (Some zero_txpdo) example_mem = (0, Some zero_txpdo) \<and>
   soem_read_txpdo (Some (example_handle ((example_slave 8 20 8)\<lparr>ec_slavet.inputs := 0\<rparr>)
     (example_group 20 8 1 1))) 1 (Some zero_txpdo) example_mem = (0, Some zero_txpdo) \<and>
   soem_read_txpdo (Some (example_handle (example_slave 8 20 7) (example_group 20 7 1 1))) 1
     (Some zero_txpdo) example_mem = (0, Some zero_txpdo)"
proof -
  let ?h = "example_handle (example_slave 8 20 8) (example_group 20 8 1 1)"
  let ?n = "example_handle ((example_slave 8 20 8)\<lparr>ec_slavet.inputs := 0\<rparr>) (example_group 20 8 1 1)"
  let ?k = "example_handle (example_slave 8 20 7) (example_group 20 7 1 1)"
  have "sint (0 :: c_int) \<le> 0 \<or> sint (slavecount (ctxt ?h)) < sint (0 :: c_int)" by simp
  with read_txpdo_failure_keeps_record [of 0 "Some zero_txpdo" example_mem ?h]
  have 1: "soem_read_txpdo (Some ?h) 0 (Some zero_txpdo) example_mem = (0, Some zero_txpdo)"
    by blast
  have "sint (2 :: c_int) \<le> 0 \<or> sint (slavecount (ctxt ?h)) < sint (2 :: c_int)"
    by (simp add: example_handle_def example_context_def)
  with read_txpdo_failure_keeps_record [of 2 "Some zero_txpdo" example_mem ?h]
  have 2: "soem_read_txpdo (Some ?h) 2 (Some zero_txpdo) example_mem = (0, Some zero_txpdo)"
    by blast
  have "ec_slavet.inputs (slavelist (ctxt ?n) (nat (sint (1 :: c_int)))) = 0"
    by (simp add: example_handle_def example_context_def)
  with read_txpdo_failure_keeps_record [of 1 "Some zero_txpdo" example_mem ?n]
  have 3: "soem_read_txpdo (Some ?n) 1 (Some zero_txpdo) example_mem = (0, Some zero_txpdo)"
    by blast
  have "unat (ec_slavet.Ibytes (slavelist (ctxt ?k) (nat (sint (1 :: c_int))))) < 8"
    by (simp add: example_handle_def example_context_def example_slave_def)
  with read_txpdo_failure_keeps_record [of 1 "Some zero_txpdo" example_mem ?k]
  have 4: "soem_read_txpdo (Some ?k) 1 (Some zero_txpdo) example_mem = (0, Some zero_txpdo)"
    by blast
  from 1 2 3 4 show ?thesis by blast
qed

subsection \<open>The cyclic exchange\<close>

lemma sint_expected_wkc:
  "sint (expected_wkc g) = 2 * uint (outputsWKC g) + uint (inputsWKC g)"
proof -
  have b: "uint (outputsWKC g) < 65536" "uint (inputsWKC g) < 65536"
    using uint_bounded [of "outputsWKC g"] uint_bounded [of "inputsWKC g"] by simp_all
  have nn: "0 \<le> uint (outputsWKC g)" "0 \<le> uint (inputsWKC g)" by simp_all
  have u: "uint (ucast (outputsWKC g) * 2 + ucast (inputsWKC g) :: 32 word) =
      2 * uint (outputsWKC g) + uint (inputsWKC g)"
    using b nn by (simp add: uint_word_ariths uint_up_ucast is_up)
  show ?thesis unfolding expected_wkc_def using u b by (simp add: sint_eq_uint_small)
qed

lemma exchange_send_failed:
  assumes "ecx_send_processdata st (ctxt h) (stage_outputs (grouplist0 (ctxt h)) ob ol m) = (s, c1, m2)"
    and "sint s < 0"
  shows "soem_exchange_process_data st (Some h) ob ol ib il t m =
     (SOEM_ERR_SEND_FAIL, Some (h\<lparr>ctxt := c1\<rparr>), ib, m2)"
  using assms by (simp add: soem_exchange_process_data_def Let_def)

lemma exchange_recv_failed:
  assumes "ecx_send_processdata st (ctxt h) (stage_outputs (grouplist0 (ctxt h)) ob ol m) = (s, c1, m2)"
    and "ecx_receive_processdata st c1 m2 (clamp_timeout t) = (w, c2, m3)"
    and "0 \<le> sint s" "sint w < 0"
  shows "soem_exchange_process_data st (Some h) ob ol ib il t m =
     (SOEM_ERR_RECV_FAIL,
      Some (h\<lparr>ctxt := c2, last_wkc := w, last_expected_wkc := expected_wkc (grouplist0 c1)\<rparr>),
      ib, m3)"
  using assms by (simp add: soem_exchange_process_data_def Let_def)

lemma exchange_received:
  assumes "ecx_send_processdata st (ctxt h) (stage_outputs (grouplist0 (ctxt h)) ob ol m) = (s, c1, m2)"
    and "ecx_receive_processdata st c1 m2 (clamp_timeout t) = (w, c2, m3)"
    and "0 \<le> sint s" "0 \<le> sint w"
  shows "soem_exchange_process_data st (Some h) ob ol ib il t m =
     (if sint (expected_wkc (grouplist0 c1)) \<le> 0 then w
      else if sint w < sint (expected_wkc (grouplist0 c1)) then SOEM_ERR_WKC_LOW else w,
      Some (h\<lparr>ctxt := c2, last_wkc := w, last_expected_wkc := expected_wkc (grouplist0 c1)\<rparr>),
      copy_inputs (grouplist0 c2) ib il m3, m3)"
  using assms by (simp add: soem_exchange_process_data_def Let_def)

lemma example_send:
  "ecx_send_processdata (example_stack n sz s r) c m = (s, c, m)"
  by (simp add: example_stack_def)

lemma example_receive:
  "ecx_receive_processdata (example_stack n sz s r) c m t = (r, c, m)"
  by (simp add: example_stack_def)

lemma example_grouplist0:
  "grouplist0 (ctxt (example_handle sl g)) = g"
  by (simp add: example_handle_def example_context_def)

text \<open>
  C1. In a call on a valid handle whose send and receive both return a non-negative
  result, the expected working counter is twice the group's output contribution plus its
  input contribution, without overflow (the group as the send left it). If the expected
  value is not positive the observed counter is returned; if it is positive and the
  observed counter is below it, the return value is \<open>SOEM_ERR_WKC_LOW\<close>, which is -10;
  otherwise the observed counter is returned.
\<close>

theorem exchange_wkc_policy:
  assumes send: "ecx_send_processdata st (ctxt h) (stage_outputs (grouplist0 (ctxt h)) ob ol m) = (s, c1, m2)"
    and recv: "ecx_receive_processdata st c1 m2 (clamp_timeout t) = (w, c2, m3)"
    and ok: "0 \<le> sint s" "0 \<le> sint w"
    and e: "e = expected_wkc (grouplist0 c1)"
    and rc: "rc = fst (soem_exchange_process_data st (Some h) ob ol ib il t m)"
  shows "sint e = 2 * uint (outputsWKC (grouplist0 c1)) + uint (inputsWKC (grouplist0 c1)) \<and>
     (sint e \<le> 0 \<longrightarrow> rc = w) \<and>
     (0 < sint e \<and> sint w < sint e \<longrightarrow> rc = SOEM_ERR_WKC_LOW \<and> sint rc = - 10) \<and>
     (0 < sint e \<and> sint e \<le> sint w \<longrightarrow> rc = w)"
proof -
  have "rc = (if sint e \<le> 0 then w else if sint w < sint e then SOEM_ERR_WKC_LOW else w)"
    unfolding rc e by (simp only: exchange_received [OF send recv ok] fst_conv)
  moreover have "sint SOEM_ERR_WKC_LOW = - 10" by (simp add: SOEM_ERR_WKC_LOW_def)
  ultimately show ?thesis using sint_expected_wkc [of "grouplist0 c1"] e by auto
qed

theorem exchange_wkc_policy_witness:
  "fst (soem_exchange_process_data (example_stack 1 28 1 2)
          (Some (example_handle (example_slave 8 20 8) (example_group 20 8 1 1)))
          None 0 None 0 0 example_mem) = - 10 \<and>
   fst (soem_exchange_process_data (example_stack 1 28 1 2)
          (Some (example_handle (example_slave 8 20 8) (example_group 20 8 0 0)))
          None 0 None 0 0 example_mem) = 2 \<and>
   fst (soem_exchange_process_data (example_stack 1 28 1 3)
          (Some (example_handle (example_slave 8 20 8) (example_group 20 8 1 1)))
          None 0 None 0 0 example_mem) = 3"
proof -
  let ?h = "example_handle (example_slave 8 20 8) (example_group 20 8 1 1)"
  let ?z = "example_handle (example_slave 8 20 8) (example_group 20 8 0 0)"
  let ?m = "\<lambda>h. stage_outputs (grouplist0 (ctxt h)) None 0 example_mem"
  have ok: "0 \<le> sint (1 :: c_int)" "0 \<le> sint (2 :: c_int)" "0 \<le> sint (3 :: c_int)" by simp_all
  have e3: "sint (expected_wkc (grouplist0 (ctxt ?h))) = 3"
    by (simp add: example_grouplist0 expected_wkc_def example_group_def)
  have e0: "sint (expected_wkc (grouplist0 (ctxt ?z))) = 0"
    by (simp add: example_grouplist0 expected_wkc_def example_group_def)
  have s2: "ecx_send_processdata (example_stack 1 28 1 2) (ctxt h) (?m h) = (1, ctxt h, ?m h)"
    for h :: "unit soem_handle" by (rule example_send)
  have r2: "ecx_receive_processdata (example_stack 1 28 1 2) (ctxt h) (?m h) (clamp_timeout 0) = (2, ctxt h, ?m h)"
    for h :: "unit soem_handle" by (rule example_receive)
  have s3: "ecx_send_processdata (example_stack 1 28 1 3) (ctxt ?h) (?m ?h) = (1, ctxt ?h, ?m ?h)"
    by (rule example_send)
  have r3: "ecx_receive_processdata (example_stack 1 28 1 3) (ctxt ?h) (?m ?h) (clamp_timeout 0) = (3, ctxt ?h, ?m ?h)"
    by (rule example_receive)
  from exchange_wkc_policy [OF s2 r2 ok(1) ok(2) refl refl, where ib = None and il = 0] e3
  have 1: "fst (soem_exchange_process_data (example_stack 1 28 1 2) (Some ?h)
          None 0 None 0 0 example_mem) = - 10"
    by (simp add: SOEM_ERR_WKC_LOW_def)
  from exchange_wkc_policy [OF s2 r2 ok(1) ok(2) refl refl, where ib = None and il = 0] e0
  have 2: "fst (soem_exchange_process_data (example_stack 1 28 1 2) (Some ?z)
          None 0 None 0 0 example_mem) = 2"
    by simp
  from exchange_wkc_policy [OF s3 r3 ok(1) ok(3) refl refl, where ib = None and il = 0] e3
  have 3: "fst (soem_exchange_process_data (example_stack 1 28 1 3) (Some ?h)
          None 0 None 0 0 example_mem) = 3"
    by simp
  from 1 2 3 show ?thesis by blast
qed

lemma nat_min_int: "0 < a \<Longrightarrow> nat (if a < int b then a else int b) = min (nat a) b"
  by (auto simp add: min_def)

lemma nat_min_int': "0 < a \<Longrightarrow> nat (if a > int b then int b else a) = min (nat a) b"
  by (auto simp add: min_def)

lemma pos_min_int: "0 < a \<Longrightarrow> 0 < b \<Longrightarrow> 0 < (if a < int b then a else int b)"
  by auto

lemma memcpy_out_take: "take n (memcpy_out dst m p n) = map (\<lambda>k. m (p + k)) [0..<n]"
  by (simp add: memcpy_out_def)

lemma memcpy_out_drop: "drop n (memcpy_out dst m p n) = drop n dst"
  by (simp add: memcpy_out_def)

lemma copy_inputs_spec:
  assumes il: "0 < sint il" and len: "unat (ec_groupt.Ibytes g) < 2 ^ 31"
  shows "copy_inputs g (Some dst) il m =
     Some (memcpy_out dst m (ec_groupt.inputs g) (min (nat (sint il)) (unat (ec_groupt.Ibytes g))))"
proof -
  have s: "sint (ec_groupt.Ibytes g) = int (unat (ec_groupt.Ibytes g))"
    using len by (intro sint_eq_unat_small) simp
  show ?thesis
  proof (cases "ec_groupt.Ibytes g = 0")
    case True
    then show ?thesis by (simp add: copy_inputs_def memcpy_out_def)
  next
    case False
    then have pos: "0 < unat (ec_groupt.Ibytes g)" by (simp add: unat_gt_0)
    have "nat (if sint il < sint (ec_groupt.Ibytes g) then sint il else sint (ec_groupt.Ibytes g))
        = min (nat (sint il)) (unat (ec_groupt.Ibytes g))"
      unfolding s using il by (rule nat_min_int)
    moreover have "0 < (if sint il < sint (ec_groupt.Ibytes g) then sint il else sint (ec_groupt.Ibytes g))"
      unfolding s using il pos by (rule pos_min_int)
    ultimately show ?thesis using il False by (simp add: copy_inputs_def Let_def)
  qed
qed

lemma stage_outputs_omitted:
  "stage_outputs g None ol m = m" "sint ol \<le> 0 \<Longrightarrow> stage_outputs g ob ol m = m"
  by (simp_all add: stage_outputs_def split: option.splits)

lemma legacy_stage_outputs_omitted:
  "legacy_stage_outputs g None ol m = m" "sint ol \<le> 0 \<Longrightarrow> legacy_stage_outputs g ob ol m = m"
  by (simp_all add: legacy_stage_outputs_def split: option.splits)

lemma stage_outputs_spec:
  assumes ol: "0 < sint ol" and ne: "ec_groupt.Obytes g \<noteq> 0"
    and len: "unat (ec_groupt.Obytes g) < 2 ^ 31"
  shows "stage_outputs g (Some src) ol m a =
     (if ec_groupt.outputs g \<le> a \<and>
         a < ec_groupt.outputs g + min (nat (sint ol)) (unat (ec_groupt.Obytes g))
      then src ! (a - ec_groupt.outputs g)
      else if ec_groupt.outputs g \<le> a \<and> a < ec_groupt.outputs g + unat (ec_groupt.Obytes g)
      then 0 else m a)"
proof -
  have s: "sint (ec_groupt.Obytes g) = int (unat (ec_groupt.Obytes g))"
    using len by (intro sint_eq_unat_small) simp
  have pos: "0 < unat (ec_groupt.Obytes g)" using ne by (simp add: unat_gt_0)
  have c: "nat (if sint ol < sint (ec_groupt.Obytes g) then sint ol else sint (ec_groupt.Obytes g))
        = min (nat (sint ol)) (unat (ec_groupt.Obytes g))"
    unfolding s using ol by (rule nat_min_int)
  have p: "0 < (if sint ol < sint (ec_groupt.Obytes g) then sint ol else sint (ec_groupt.Obytes g))"
    unfolding s using ol pos by (rule pos_min_int)
  have "stage_outputs g (Some src) ol m =
      memcpy_in (memset m (ec_groupt.outputs g) 0 (unat (ec_groupt.Obytes g))) (ec_groupt.outputs g) src
        (min (nat (sint ol)) (unat (ec_groupt.Obytes g)))"
    using ol ne p c by (simp add: stage_outputs_def Let_def)
  then show ?thesis by (auto simp add: memcpy_in_def memset_def)
qed

lemma legacy_stage_outputs_spec:
  assumes ol: "0 < sint ol" and len: "unat (ec_groupt.Obytes g) < 2 ^ 31"
  shows "legacy_stage_outputs g (Some src) ol m a =
     (if ec_groupt.outputs g \<le> a \<and>
         a < ec_groupt.outputs g + min (nat (sint ol)) (unat (ec_groupt.Obytes g))
      then src ! (a - ec_groupt.outputs g) else m a)"
proof -
  have s: "sint (ec_groupt.Obytes g) = int (unat (ec_groupt.Obytes g))"
    using len by (intro sint_eq_unat_small) simp
  have c: "nat (if sint ol > sint (ec_groupt.Obytes g) then sint (ec_groupt.Obytes g) else sint ol)
        = min (nat (sint ol)) (unat (ec_groupt.Obytes g))"
    unfolding s using ol by (rule nat_min_int')
  show ?thesis
  proof (cases "0 < unat (ec_groupt.Obytes g)")
    case True
    then have "legacy_stage_outputs g (Some src) ol m =
        memcpy_in m (ec_groupt.outputs g) src (min (nat (sint ol)) (unat (ec_groupt.Obytes g)))"
      using ol c by (simp add: legacy_stage_outputs_def Let_def)
    then show ?thesis by (simp add: memcpy_in_def)
  next
    case False
    then show ?thesis by (auto simp add: legacy_stage_outputs_def)
  qed
qed

text \<open>
  C6. In a call whose send and receive both return a non-negative result, with a
  non-null input buffer and a positive length, the caller's buffer after the call starts
  with the bytes of the group's input region as the receive left them, as many as the
  smaller of the caller's length and the group's input length (a length that the cast to
  \<^verbatim>\<open>int\<close> keeps, below \<open>2 ^ 31\<close>); the rest of the buffer is unchanged. This holds
  whatever the call returns, the observed counter or \<open>SOEM_ERR_WKC_LOW\<close>.
\<close>

theorem exchange_copies_inputs:
  assumes send: "ecx_send_processdata st (ctxt h) (stage_outputs (grouplist0 (ctxt h)) ob ol m) = (s, c1, m2)"
    and recv: "ecx_receive_processdata st c1 m2 (clamp_timeout t) = (w, c2, m3)"
    and ok: "0 \<le> sint s" "0 \<le> sint w"
    and il: "0 < sint il"
    and len: "unat (ec_groupt.Ibytes (grouplist0 c2)) < 2 ^ 31"
    and n: "n = min (nat (sint il)) (unat (ec_groupt.Ibytes (grouplist0 c2)))"
  shows "\<exists>rc h' dst'.
           soem_exchange_process_data st (Some h) ob ol (Some dst) il t m = (rc, h', Some dst', m3) \<and>
           (rc = w \<or> rc = SOEM_ERR_WKC_LOW) \<and>
           take n dst' = map (\<lambda>k. m3 (ec_groupt.inputs (grouplist0 c2) + k)) [0..<n] \<and>
           drop n dst' = drop n dst"
proof -
  let ?dst' = "memcpy_out dst m3 (ec_groupt.inputs (grouplist0 c2)) n"
  have "copy_inputs (grouplist0 c2) (Some dst) il m3 = Some ?dst'"
    unfolding n by (rule copy_inputs_spec [OF il len])
  with exchange_received [OF send recv ok, of "Some dst" il]
  have "\<exists>rc h'. soem_exchange_process_data st (Some h) ob ol (Some dst) il t m = (rc, h', Some ?dst', m3) \<and>
      (rc = w \<or> rc = SOEM_ERR_WKC_LOW)"
    by auto
  then show ?thesis using memcpy_out_take [of n dst m3] memcpy_out_drop [of n dst m3] by blast
qed

theorem exchange_copies_inputs_witness:
  "\<exists>h'. soem_exchange_process_data (example_stack 1 28 1 2)
           (Some (example_handle (example_slave 8 20 8) (example_group 20 8 1 1)))
           None 0 (Some [1, 2, 3, 4, 5, 6, 7, 8, 9, 10]) 10 0 example_mem =
         (SOEM_ERR_WKC_LOW, h', Some [0xFE, 0xFF, 0xFF, 0xFF, 0x21, 0, 0, 7, 9, 10], example_mem)"
proof -
  let ?h = "example_handle (example_slave 8 20 8) (example_group 20 8 1 1)"
  let ?m = "stage_outputs (grouplist0 (ctxt ?h)) None 0 example_mem"
  let ?st = "example_stack 1 28 1 2"
  let ?dst = "[1, 2, 3, 4, 5, 6, 7, 8, 9, 10] :: uint8_t list"
  have m: "?m = example_mem" by (simp add: stage_outputs_def)
  have s: "ecx_send_processdata ?st (ctxt ?h) ?m = (1, ctxt ?h, ?m)" by (rule example_send)
  have r: "ecx_receive_processdata ?st (ctxt ?h) ?m (clamp_timeout 0) = (2, ctxt ?h, ?m)"
    by (rule example_receive)
  have ok: "0 \<le> sint (1 :: c_int)" "0 \<le> sint (2 :: c_int)" "0 < sint (10 :: c_int)" by simp_all
  have len: "unat (ec_groupt.Ibytes (grouplist0 (ctxt ?h))) < 2 ^ 31"
    by (simp add: example_grouplist0 example_group_def)
  have n: "8 = min (nat (sint (10 :: c_int))) (unat (ec_groupt.Ibytes (grouplist0 (ctxt ?h))))"
    by (simp add: example_grouplist0 example_group_def)
  from exchange_copies_inputs [OF s r ok(1) ok(2) ok(3) len n, of ?dst]
  obtain rc h' dst' where
    res: "soem_exchange_process_data ?st (Some ?h) None 0 (Some ?dst) 10 0 example_mem = (rc, h', Some dst', ?m)"
    and tk: "take 8 dst' = map (\<lambda>k. ?m (ec_groupt.inputs (grouplist0 (ctxt ?h)) + k)) [0..<8]"
    and dr: "drop 8 dst' = drop 8 ?dst"
    by blast
  have "map (\<lambda>k. example_mem (200 + k)) [0..<8] = [0xFE, 0xFF, 0xFF, 0xFF, 0x21, 0, 0, 7]"
  proof -
    have "[0..<8] = [0, 1, 2, 3, 4, 5, 6, 7 :: nat]" by code_simp
    then show ?thesis by (simp add: example_mem_def)
  qed
  with tk have tk': "take 8 dst' = [0xFE, 0xFF, 0xFF, 0xFF, 0x21, 0, 0, 7]"
    by (simp add: stage_outputs_omitted(1) example_grouplist0 example_group_def)
  have "dst' = take 8 dst' @ drop 8 dst'" by simp
  also have "\<dots> = [0xFE, 0xFF, 0xFF, 0xFF, 0x21, 0, 0, 7, 9, 10]"
    unfolding tk' dr by simp
  finally have d: "dst' = [0xFE, 0xFF, 0xFF, 0xFF, 0x21, 0, 0, 7, 9, 10]" .
  have "rc = SOEM_ERR_WKC_LOW"
    using res exchange_received [OF s r ok(1) ok(2), of "Some ?dst" 10]
    by (simp add: example_grouplist0 expected_wkc_def example_group_def)
  with res d m show ?thesis by simp
qed

lemma exchange_final_store:
  assumes send_frame: "\<forall>c m a. p \<le> a \<and> a < p + n \<longrightarrow> snd (snd (ecx_send_processdata st c m)) a = m a"
    and recv_frame: "\<forall>c m t a. p \<le> a \<and> a < p + n \<longrightarrow> snd (snd (ecx_receive_processdata st c m t)) a = m a"
    and a: "p \<le> a" "a < p + n"
  shows "snd (snd (snd (soem_exchange_process_data st (Some h) ob ol ib il t m))) a =
     stage_outputs (grouplist0 (ctxt h)) ob ol m a"
proof -
  let ?m1 = "stage_outputs (grouplist0 (ctxt h)) ob ol m"
  obtain s c1 m2 where send: "ecx_send_processdata st (ctxt h) ?m1 = (s, c1, m2)"
    by (cases "ecx_send_processdata st (ctxt h) ?m1") auto
  obtain w c2 m3 where recv: "ecx_receive_processdata st c1 m2 (clamp_timeout t) = (w, c2, m3)"
    by (cases "ecx_receive_processdata st c1 m2 (clamp_timeout t)") auto
  have m2: "m2 a = ?m1 a"
    using send_frame [rule_format, of a "ctxt h" ?m1] a send by simp
  have m3: "m3 a = m2 a"
    using recv_frame [rule_format, of a c1 m2 "clamp_timeout t"] a recv by simp
  consider "sint s < 0" | "0 \<le> sint s" "sint w < 0" | "0 \<le> sint s" "0 \<le> sint w" by linarith
  then show ?thesis
  proof cases
    case 1
    then show ?thesis by (simp add: exchange_send_failed [OF send] m2)
  next
    case 2
    then show ?thesis by (simp add: exchange_recv_failed [OF send recv] m2 m3)
  next
    case 3
    then show ?thesis by (simp add: exchange_received [OF send recv] m2 m3)
  qed
qed

lemma legacy_exchange_final_store:
  assumes send_frame: "\<forall>c m a. p \<le> a \<and> a < p + n \<longrightarrow> snd (snd (ecx_send_processdata st c m)) a = m a"
    and recv_frame: "\<forall>c m t a. p \<le> a \<and> a < p + n \<longrightarrow> snd (snd (ecx_receive_processdata st c m t)) a = m a"
    and a: "p \<le> a" "a < p + n"
  shows "snd (snd (snd (legacy_soem_exchange_process_data st (Some h) ob ol ib il t m))) a =
     legacy_stage_outputs (grouplist0 (legacy_context h)) ob ol m a"
proof -
  let ?m1 = "legacy_stage_outputs (grouplist0 (legacy_context h)) ob ol m"
  obtain s c1 m2 where send: "ecx_send_processdata st (legacy_context h) ?m1 = (s, c1, m2)"
    by (cases "ecx_send_processdata st (legacy_context h) ?m1") auto
  obtain w c2 m3 where recv: "ecx_receive_processdata st c1 m2 t = (w, c2, m3)"
    by (cases "ecx_receive_processdata st c1 m2 t") auto
  have m2: "m2 a = ?m1 a"
    using send_frame [rule_format, of a "legacy_context h" ?m1] a send by simp
  have m3: "m3 a = m2 a"
    using recv_frame [rule_format, of a c1 m2 t] a recv by simp
  show ?thesis
    using send recv m2 m3 by (simp add: legacy_soem_exchange_process_data_def Let_def)
qed

text \<open>
  C4, as amended. Let the library's send and receive leave the bytes of the group's output
  region as they find them, and let the region's length be below \<open>2 ^ 31\<close> (a length
  that the cast to \<^verbatim>\<open>int\<close> keeps). For a byte \<open>a\<close> of the region and a call with a
  non-null output buffer and a positive length: after the call of the extended shim the
  byte is the caller's byte if it lies within the caller's length and zero beyond it;
  after the call of the legacy shim it is the caller's byte within the caller's length
  and what it was before the call beyond it. With the outputs omitted (a null buffer or a
  length that is not positive) the byte is what it was before the call, in both shims.
\<close>

theorem exchange_output_staging:
  fixes h :: "'p soem_handle" and lh :: "'p legacy_soem_handle"
  assumes send_frame: "\<forall>c m a. p \<le> a \<and> a < p + n \<longrightarrow> snd (snd (ecx_send_processdata st c m)) a = m a"
    and recv_frame: "\<forall>c m t a. p \<le> a \<and> a < p + n \<longrightarrow> snd (snd (ecx_receive_processdata st c m t)) a = m a"
    and g: "grouplist0 (ctxt h) = g" "grouplist0 (legacy_context lh) = g"
    and p: "p = ec_groupt.outputs g"
    and n: "n = unat (ec_groupt.Obytes g)" "n < 2 ^ 31"
    and a: "p \<le> a" "a < p + n"
    and mf: "mf = snd (snd (snd (soem_exchange_process_data st (Some h) ob ol ib il t m)))"
    and lmf: "lmf = snd (snd (snd (legacy_soem_exchange_process_data st (Some lh) ob ol ib il t m)))"
  shows "(\<forall>src. ob = Some src \<and> 0 < sint ol \<longrightarrow>
            mf a = (if a < p + nat (sint ol) then src ! (a - p) else 0) \<and>
            lmf a = (if a < p + nat (sint ol) then src ! (a - p) else m a)) \<and>
         (ob = None \<or> sint ol \<le> 0 \<longrightarrow> mf a = m a \<and> lmf a = m a)"
proof -
  have mf': "mf a = stage_outputs g ob ol m a"
    unfolding mf using exchange_final_store [OF send_frame recv_frame a, of h] g by simp
  have lmf': "lmf a = legacy_stage_outputs g ob ol m a"
    unfolding lmf using legacy_exchange_final_store [OF send_frame recv_frame a, of lh] g by simp
  have ne: "ec_groupt.Obytes g \<noteq> 0" using a n by auto
  have len: "unat (ec_groupt.Obytes g) < 2 ^ 31" using n by simp
  show ?thesis
  proof (intro conjI allI impI)
    fix src assume ob: "ob = Some src \<and> 0 < sint ol"
    then have ol: "0 < sint ol" by simp
    show "mf a = (if a < p + nat (sint ol) then src ! (a - p) else 0)"
      using stage_outputs_spec [OF ol ne len, of src m a] mf' ob a p n by auto
    show "lmf a = (if a < p + nat (sint ol) then src ! (a - p) else m a)"
      using legacy_stage_outputs_spec [OF ol len, of src m a] lmf' ob a p n by auto
  next
    assume "ob = None \<or> sint ol \<le> 0"
    then show "mf a = m a" "lmf a = m a"
      using mf' lmf' by (auto simp add: stage_outputs_omitted legacy_stage_outputs_omitted)
  qed
qed

theorem exchange_output_staging_witness:
  "snd (snd (snd (soem_exchange_process_data (example_stack 1 28 1 3)
      (Some (example_handle (example_slave 8 20 8) (example_group 20 8 1 1)))
      (Some [1, 2]) 2 None 0 0 example_mem))) 101 = 2 \<and>
   snd (snd (snd (soem_exchange_process_data (example_stack 1 28 1 3)
      (Some (example_handle (example_slave 8 20 8) (example_group 20 8 1 1)))
      (Some [1, 2]) 2 None 0 0 example_mem))) 102 = 0 \<and>
   snd (snd (snd (legacy_soem_exchange_process_data (example_stack 1 28 1 3)
      (Some (example_legacy_handle (example_slave 8 20 8) (example_group 20 8 1 1)))
      (Some [1, 2]) 2 None 0 0 example_mem))) 101 = 2 \<and>
   snd (snd (snd (soem_exchange_process_data (example_stack 1 28 1 3)
      (Some (example_handle (example_slave 8 20 8) (example_group 20 8 1 1)))
      None 0 None 0 0 example_mem))) 102 = 0xAA \<and>
   snd (snd (snd (legacy_soem_exchange_process_data (example_stack 1 28 1 3)
      (Some (example_legacy_handle (example_slave 8 20 8) (example_group 20 8 1 1)))
      None 0 None 0 0 example_mem))) 102 = 0xAA"
proof -
  let ?g = "example_group 20 8 1 1"
  let ?h = "example_handle (example_slave 8 20 8) ?g"
  let ?l = "example_legacy_handle (example_slave 8 20 8) ?g"
  let ?st = "example_stack 1 28 1 3"
  have sf: "\<forall>c m a. (100 :: nat) \<le> a \<and> a < 100 + 20 \<longrightarrow> snd (snd (ecx_send_processdata ?st c m)) a = m a"
    by (simp add: example_send)
  have rf: "\<forall>c m t a. (100 :: nat) \<le> a \<and> a < 100 + 20 \<longrightarrow> snd (snd (ecx_receive_processdata ?st c m t)) a = m a"
    by (simp add: example_receive)
  have g: "grouplist0 (ctxt ?h) = ?g" "grouplist0 (legacy_context ?l) = ?g"
    by (simp_all add: example_grouplist0 example_legacy_handle_def example_context_def)
  have p: "100 = ec_groupt.outputs ?g" by (simp add: example_group_def)
  have n: "20 = unat (ec_groupt.Obytes ?g)" "(20 :: nat) < 2 ^ 31" by (simp_all add: example_group_def)
  have a1: "(100 :: nat) \<le> 101" "(101 :: nat) < 100 + 20" by simp_all
  have a2: "(100 :: nat) \<le> 102" "(102 :: nat) < 100 + 20" by simp_all
  note t1 = exchange_output_staging [OF sf rf g p n a1 refl refl,
      where ob = "Some [1, 2]" and ol = 2 and ib = None and il = 0 and t = 0 and m = example_mem]
  note t2 = exchange_output_staging [OF sf rf g p n a2 refl refl,
      where ob = "Some [1, 2]" and ol = 2 and ib = None and il = 0 and t = 0 and m = example_mem]
  note t3 = exchange_output_staging [OF sf rf g p n a2 refl refl,
      where ob = None and ol = 0 and ib = None and il = 0 and t = 0 and m = example_mem]
  have m: "example_mem 102 = 0xAA" by (simp add: example_mem_def)
  from t1 t2 t3 m show ?thesis by simp
qed

text \<open>
  The legacy shim on a region filled with \<open>0xAA\<close> and a payload of two bytes: the third
  byte of the region is still \<open>0xAA\<close> after the call.
\<close>

theorem legacy_exchange_leaves_stale_bytes:
  "snd (snd (snd (legacy_soem_exchange_process_data (example_stack 1 28 1 3)
      (Some (example_legacy_handle (example_slave 8 20 8) (example_group 20 8 1 1)))
      (Some [1, 2]) 2 None 0 0 example_mem))) 102 = 0xAA"
  by (simp add: legacy_soem_exchange_process_data_def legacy_stage_outputs_def
      legacy_copy_inputs_def example_stack_def example_legacy_handle_def example_context_def
      example_group_def example_mem_def memcpy_in_def Let_def)

subsection \<open>Recovery\<close>

lemma verify_slaves_range: "verify_slaves c i = 0 \<or> verify_slaves c i = 1"
proof (induction c i rule: verify_slaves.induct)
  case (1 c i)
  show ?case
  proof (cases "i \<le> sint (slavecount c)")
    case True
    then show ?thesis using 1 by (subst (1 2) verify_slaves.simps) auto
  next
    case False
    then show ?thesis by (subst (1 2) verify_slaves.simps) simp
  qed
qed

lemma verify_slaves_iff:
  "verify_slaves c i = 1 \<longleftrightarrow>
     (\<forall>j. i \<le> j \<and> j \<le> sint (slavecount c) \<longrightarrow> state (slavelist c (nat j)) = EC_STATE_OPERATIONAL)"
proof (induction c i rule: verify_slaves.induct)
  case (1 c i)
  show ?case
  proof (cases "i \<le> sint (slavecount c)")
    case False
    then show ?thesis by (subst verify_slaves.simps) auto
  next
    case True
    show ?thesis
    proof (cases "state (slavelist c (nat i)) = EC_STATE_OPERATIONAL")
      case op: True
      have "verify_slaves c i = verify_slaves c (i + 1)"
        using True op by (subst verify_slaves.simps) simp
      also have "verify_slaves c (i + 1) = 1 \<longleftrightarrow>
          (\<forall>j. i + 1 \<le> j \<and> j \<le> sint (slavecount c) \<longrightarrow>
               state (slavelist c (nat j)) = EC_STATE_OPERATIONAL)"
        using 1 True op by simp
      also have "\<dots> \<longleftrightarrow> (\<forall>j. i \<le> j \<and> j \<le> sint (slavecount c) \<longrightarrow>
               state (slavelist c (nat j)) = EC_STATE_OPERATIONAL)"
      proof
        assume a: "\<forall>j. i + 1 \<le> j \<and> j \<le> sint (slavecount c) \<longrightarrow>
               state (slavelist c (nat j)) = EC_STATE_OPERATIONAL"
        show "\<forall>j. i \<le> j \<and> j \<le> sint (slavecount c) \<longrightarrow>
               state (slavelist c (nat j)) = EC_STATE_OPERATIONAL"
        proof (intro allI impI)
          fix j assume j: "i \<le> j \<and> j \<le> sint (slavecount c)"
          show "state (slavelist c (nat j)) = EC_STATE_OPERATIONAL"
          proof (cases "j = i")
            case True then show ?thesis using op by simp
          next
            case False
            with j have "i + 1 \<le> j \<and> j \<le> sint (slavecount c)" by linarith
            with a show ?thesis by blast
          qed
        qed
      next
        assume "\<forall>j. i \<le> j \<and> j \<le> sint (slavecount c) \<longrightarrow>
               state (slavelist c (nat j)) = EC_STATE_OPERATIONAL"
        then show "\<forall>j. i + 1 \<le> j \<and> j \<le> sint (slavecount c) \<longrightarrow>
               state (slavelist c (nat j)) = EC_STATE_OPERATIONAL"
          by auto
      qed
      finally show ?thesis .
    next
      case nop: False
      have "verify_slaves c i = 0" using True nop by (subst verify_slaves.simps) simp
      moreover have "\<not> (\<forall>j. i \<le> j \<and> j \<le> sint (slavecount c) \<longrightarrow>
               state (slavelist c (nat j)) = EC_STATE_OPERATIONAL)"
        using True nop by auto
      ultimately show ?thesis by simp
    qed
  qed
qed

lemma clear_error_flags_none:
  "(\<And>j. state (slavelist c (nat j)) AND EC_STATE_ERROR = 0) \<Longrightarrow> clear_error_flags st i c = c"
proof (induction st i c rule: clear_error_flags.induct)
  case (1 st i c)
  show ?case
  proof (cases "i \<le> sint (slavecount c)")
    case True
    have "clear_error_flags st i c = clear_error_flags st (i + 1) c"
      using True "1.prems" [of i] by (subst clear_error_flags.simps) simp
    also have "\<dots> = c" using True "1.prems" by (intro "1.IH"(2)) simp_all
    finally show ?thesis .
  next
    case False
    then show ?thesis by (subst clear_error_flags.simps) simp
  qed
qed

lemma example_blind_cycles: "blind_cycles (example_stack n sz s r) k c m = (c, m)"
  by (induction k) (simp_all add: example_stack_def)

lemma example_statecheck:
  "ecx_statecheck (example_stack n sz s r) c i req t = (req, c)"
  by (simp add: example_stack_def)

lemma example_readstate: "ecx_readstate (example_stack n sz s r) c = c"
  by (simp add: example_stack_def)

lemma example_writestate: "ecx_writestate (example_stack n sz s r) c i = c"
  by (simp add: example_stack_def)

text \<open>
  C5. Name the contexts of a call on a valid handle: \<open>c4\<close> after the states were read
  again, the error flags cleared and OPERATIONAL written to the group, \<open>c5\<close> after the
  three blind cycles, and \<open>rc\<close>, \<open>c6\<close> the result of the group-level state check with the
  caller's timeout. Then \<^verbatim>\<open>soem_try_recover\<close> returns 1 if and only if \<open>rc\<close> is
  OPERATIONAL and the state of every slave from 1 to the slave count in \<open>c6\<close> equals
  OPERATIONAL; otherwise it returns 0. So it returns 0 when the group-level check passes
  and some slave is in another state.
\<close>

theorem try_recover_two_level_check:
  assumes c2: "c2 = clear_error_flags st 1 (ecx_readstate st (ctxt h))"
    and c4: "c4 = ecx_writestate st
        (c2\<lparr>slavelist := (slavelist c2)(0 := (slavelist c2 0)\<lparr>state := EC_STATE_OPERATIONAL\<rparr>)\<rparr>) 0"
    and cyc: "blind_cycles st 3 c4 m = (c5, m1)"
    and chk: "ecx_statecheck st c5 0 EC_STATE_OPERATIONAL (timeout_ms * 1000) = (rc, c6)"
    and res: "r = fst (soem_try_recover st (Some h) timeout_ms m)"
  shows "(r = 1 \<longleftrightarrow>
            rc = EC_STATE_OPERATIONAL \<and>
            (\<forall>j. 1 \<le> j \<and> j \<le> sint (slavecount c6) \<longrightarrow>
                 state (slavelist c6 (nat j)) = EC_STATE_OPERATIONAL)) \<and>
         (r = 0 \<or> r = 1) \<and>
         (rc = EC_STATE_OPERATIONAL \<and>
          (\<exists>j. 1 \<le> j \<and> j \<le> sint (slavecount c6) \<and>
               state (slavelist c6 (nat j)) \<noteq> EC_STATE_OPERATIONAL) \<longrightarrow> r = 0)"
proof -
  have r: "r = (if rc \<noteq> EC_STATE_OPERATIONAL then 0 else verify_slaves c6 1)"
    unfolding res soem_try_recover_def
    by (simp add: Let_def c2 [symmetric] c4 [symmetric] cyc chk)
  show ?thesis
  proof (cases "rc = EC_STATE_OPERATIONAL")
    case True
    with r have "r = verify_slaves c6 1" by simp
    then show ?thesis
      using True verify_slaves_iff [of c6 1] verify_slaves_range [of c6 1] by auto
  next
    case False
    with r show ?thesis by simp
  qed
qed

theorem try_recover_two_level_check_witness:
  "fst (soem_try_recover (example_stack 1 28 1 3)
         (Some (example_handle (example_slave EC_STATE_OPERATIONAL 20 8) (example_group 20 8 1 1)))
         100 example_mem) = 1 \<and>
   fst (soem_try_recover (example_stack 1 28 1 3)
         (Some (example_handle (example_slave EC_STATE_SAFE_OP 20 8) (example_group 20 8 1 1)))
         100 example_mem) = 0"
proof -
  let ?st = "example_stack 1 28 1 3"
  let ?g = "example_group 20 8 1 1"
  let ?c = "\<lambda>s. example_context (example_slave s 20 8) ?g"
  let ?c6 = "\<lambda>s. (?c s)\<lparr>slavelist := (slavelist (?c s))
      (0 := (slavelist (?c s) 0)\<lparr>state := EC_STATE_OPERATIONAL\<rparr>)\<rparr>"
  have noerr: "state (slavelist (?c s) (nat j)) AND EC_STATE_ERROR = 0"
    if "s = EC_STATE_OPERATIONAL \<or> s = EC_STATE_SAFE_OP" for s j
    using that
    by (auto simp add: example_context_def example_slave_def EC_STATE_ERROR_def
        EC_STATE_OPERATIONAL_def EC_STATE_SAFE_OP_def)
  have c2: "?c s = clear_error_flags ?st 1 (ecx_readstate ?st (ctxt (example_handle (example_slave s 20 8) ?g)))"
    if "s = EC_STATE_OPERATIONAL \<or> s = EC_STATE_SAFE_OP" for s
    using clear_error_flags_none [of "?c s" ?st 1] noerr [OF that]
    by (simp add: example_readstate example_handle_def)
  have c4: "?c6 s = ecx_writestate ?st (?c6 s) 0" for s
    by (simp add: example_writestate)
  have cyc: "blind_cycles ?st 3 (?c6 s) example_mem = (?c6 s, example_mem)" for s
    by (rule example_blind_cycles)
  have chk: "ecx_statecheck ?st (?c6 s) 0 EC_STATE_OPERATIONAL (100 * 1000) = (EC_STATE_OPERATIONAL, ?c6 s)" for s
    by (rule example_statecheck)
  have sc: "sint (slavecount (?c6 s)) = 1" for s by (simp add: example_context_def)
  have st1: "state (slavelist (?c6 s) (nat 1)) = s" for s
    by (simp add: example_context_def example_slave_def)
  have all_op: "\<forall>j. 1 \<le> j \<and> j \<le> sint (slavecount (?c6 EC_STATE_OPERATIONAL)) \<longrightarrow>
      state (slavelist (?c6 EC_STATE_OPERATIONAL) (nat j)) = EC_STATE_OPERATIONAL"
  proof (intro allI impI)
    fix j :: int assume "1 \<le> j \<and> j \<le> sint (slavecount (?c6 EC_STATE_OPERATIONAL))"
    then have "j = 1" using sc [of EC_STATE_OPERATIONAL] by linarith
    then show "state (slavelist (?c6 EC_STATE_OPERATIONAL) (nat j)) = EC_STATE_OPERATIONAL"
      using st1 [of EC_STATE_OPERATIONAL] by simp
  qed
  have one_not: "\<exists>j. 1 \<le> j \<and> j \<le> sint (slavecount (?c6 EC_STATE_SAFE_OP)) \<and>
      state (slavelist (?c6 EC_STATE_SAFE_OP) (nat j)) \<noteq> EC_STATE_OPERATIONAL"
  proof (intro exI [of _ 1] conjI)
    show "(1 :: int) \<le> 1" by simp
    show "1 \<le> sint (slavecount (?c6 EC_STATE_SAFE_OP))" using sc [of EC_STATE_SAFE_OP] by simp
    show "state (slavelist (?c6 EC_STATE_SAFE_OP) (nat 1)) \<noteq> EC_STATE_OPERATIONAL"
      using st1 [of EC_STATE_SAFE_OP] by (simp add: EC_STATE_SAFE_OP_def EC_STATE_OPERATIONAL_def)
  qed
  from try_recover_two_level_check [OF c2 c4 cyc chk refl, of EC_STATE_OPERATIONAL] all_op
  have 1: "fst (soem_try_recover ?st
         (Some (example_handle (example_slave EC_STATE_OPERATIONAL 20 8) ?g)) 100 example_mem) = 1"
    by simp
  from try_recover_two_level_check [OF c2 c4 cyc chk refl, of EC_STATE_SAFE_OP] one_not
  have 2: "fst (soem_try_recover ?st
         (Some (example_handle (example_slave EC_STATE_SAFE_OP 20 8) ?g)) 100 example_mem) = 0"
    by simp
  from 1 2 show ?thesis by simp
qed

subsection \<open>Session creation\<close>

lemma release_acquired_port:
  "release Handle_memory (release Open_port (acquire Open_port (acquire Handle_memory held))) = held"
  by (simp add: release_def acquire_def)

lemma release_acquired_all:
  "release Handle_memory (release IOmap_memory (release Open_port
     (acquire IOmap_memory (acquire Open_port (acquire Handle_memory held))))) = held"
  by (simp add: release_def acquire_def)

lemma initialize_no_slaves:
  assumes "ecx_init st (ctxt ((calloc_handle p0)\<lparr>last_wkc := - 1, last_expected_wkc := 0\<rparr>)) ifname = (rc, c1)"
    and "rc \<noteq> 0"
    and "ecx_config_init st c1 = (n, c2)"
    and "sint n \<le> 0"
  shows "soem_initialize st True p0 malloc_ptr ifname m held = (None, m, held)"
  using assms unfolding soem_initialize_def
  by (simp add: Let_def release_acquired_port)

lemma initialize_oversize:
  assumes "ecx_init st (ctxt ((calloc_handle p0)\<lparr>last_wkc := - 1, last_expected_wkc := 0\<rparr>)) ifname = (rc, c1)"
    and "rc \<noteq> 0"
    and "ecx_config_init st c1 = (n, c2)"
    and "0 < sint n"
    and "malloc_ptr \<noteq> 0"
    and "ecx_config_map_group st c2 malloc_ptr (memset m malloc_ptr 0 iomap_size) = (sz, c3, m2)"
    and "int iomap_size < sint sz"
  shows "soem_initialize st True p0 malloc_ptr ifname m held = (None, m2, held)"
proof -
  have pos: "0 < sint sz" using assms(7) by linarith
  have "sint sz < 2 ^ 32" using sint_lt [of sz] by simp
  with pos have "take_bit 32 (sint sz) = sint sz" by (intro take_bit_int_eq_self) simp_all
  then have "uint sz = sint sz" using uint_sint [of sz] by simp
  then have "int (unat sz) = sint sz" by simp
  then have "iomap_size < unat sz" using assms(7) by linarith
  then show ?thesis
    using assms(1-6) pos unfolding soem_initialize_def
    by (simp add: Let_def release_acquired_all)
qed

lemma initialize_none_releases:
  "fst (soem_initialize st calloc_ok p0 malloc_ptr ifname m held) = None \<Longrightarrow>
   snd (snd (soem_initialize st calloc_ok p0 malloc_ptr ifname m held)) = held"
  unfolding soem_initialize_def
  by (simp add: Let_def release_acquired_port release_acquired_all
      split: prod.splits if_splits)
     (simp_all add: release_def acquire_def)

lemma example_init: "ecx_init (example_stack n sz s r) c ifname = (1, c)"
  by (simp add: example_stack_def)

lemma example_config_init:
  "ecx_config_init (example_stack n sz s r) c =
     (n, c\<lparr>slavecount := n, slavelist := (\<lambda>_. example_slave EC_STATE_PRE_OP 20 8)\<rparr>)"
  by (simp add: example_stack_def)

lemma example_config_map_group:
  "ecx_config_map_group (example_stack n sz s r) c p m =
     (sz, c\<lparr>grouplist0 := example_group 20 8 1 1\<rparr>, m)"
  by (simp add: example_stack_def)

lemma stage_nop_one:
  "sint count = 1 \<Longrightarrow>
   stage_nop h 1 count m = snd (soem_write_rxpdo (Some h) 1 (Some nop_command) m)"
  by (subst stage_nop.simps, subst stage_nop.simps) simp

lemma exchange_returns_handle:
  "\<exists>rc h' ib' m'. soem_exchange_process_data st (Some h) ob ol ib il t m = (rc, Some h', ib', m')"
  by (simp add: soem_exchange_process_data_def Let_def split: prod.splits)

lemma initialize_example:
  "\<exists>h m'. soem_initialize (example_stack 1 28 (- 1) 3) True () 100 None example_mem [] =
       (Some h, m', [IOmap_memory, Open_port, Handle_memory]) \<and>
     last_wkc h = - 1 \<and> last_expected_wkc h = 0 \<and>
     slavecount (ctxt h) = 1 \<and> grouplist0 (ctxt h) = example_group 20 8 1 1 \<and>
     output_length h = 20 \<and> input_length h = 8 \<and>
     m' 100 = 0x4E \<and> m' 101 = 0x4F \<and> m' 102 = 0x50 \<and> m' 103 = 0 \<and> m' 116 = 0 \<and> m' 117 = 0"
  unfolding soem_initialize_def
  apply (simp add: Let_def example_init example_config_init example_config_map_group
      soem_get_slave_count_def calloc_handle_def stage_nop_one iomap_size_def
      acquire_def release_def)
  apply (simp add: soem_exchange_process_data_def example_send Let_def stage_outputs_def
      example_statecheck example_writestate example_stack_def)
  apply (simp add: stage_nop_one soem_write_rxpdo_def Let_def example_slave_def example_group_def IO_RX_BYTES_def
      nop_command_def memcpy_in_def store_le32_def store_le16_def memset_def)
  done

lemma initialize_probe_cache:
  assumes "soem_initialize st calloc_ok p0 ptr ifname m held = (Some hS, mS, heldS)"
  shows "\<exists>h4 m3 rc hx ib mx.
           last_wkc h4 = - 1 \<and> last_expected_wkc h4 = 0 \<and>
           soem_exchange_process_data st (Some h4) None 0 None 0 2000 m3 = (rc, Some hx, ib, mx) \<and>
           last_wkc hS = last_wkc hx \<and> last_expected_wkc hS = last_expected_wkc hx"
proof -
  let ?h0 = "(calloc_handle p0)\<lparr>last_wkc := - 1, last_expected_wkc := 0\<rparr>"
  obtain rc1 c1 where init: "ecx_init st (ctxt ?h0) ifname = (rc1, c1)"
    by (cases "ecx_init st (ctxt ?h0) ifname") auto
  obtain n c2 where cfg: "ecx_config_init st c1 = (n, c2)"
    by (cases "ecx_config_init st c1") auto
  obtain sz c3 m2 where map: "ecx_config_map_group st c2 ptr (memset m ptr 0 iomap_size) = (sz, c3, m2)"
    by (rule prod_cases3)
  let ?h4 = "?h0\<lparr>ctxt := ecx_configdc st c3, IOmap := ptr\<rparr>"
  let ?m3 = "stage_nop ?h4 1 (soem_get_slave_count (Some ?h4)) m2"
  obtain rc hx ib mx where ex:
    "soem_exchange_process_data st (Some ?h4) None 0 None 0 2000 ?m3 = (rc, Some hx, ib, mx)"
    using exchange_returns_handle [of st ?h4 None 0 None 0 2000 ?m3] by blast
  obtain s6 c6 where chk1: "ecx_statecheck st (ctxt hx) 0 EC_STATE_SAFE_OP (EC_TIMEOUTSTATE * 4) = (s6, c6)"
    by (cases "ecx_statecheck st (ctxt hx) 0 EC_STATE_SAFE_OP (EC_TIMEOUTSTATE * 4)") auto
  let ?c8 = "ecx_writestate st
      (c6\<lparr>slavelist := (slavelist c6)(0 := (slavelist c6 0)\<lparr>state := EC_STATE_OPERATIONAL\<rparr>)\<rparr>) 0"
  obtain s9 c9 where chk2: "ecx_statecheck st ?c8 0 EC_STATE_OPERATIONAL EC_TIMEOUTSTATE = (s9, c9)"
    by (cases "ecx_statecheck st ?c8 0 EC_STATE_OPERATIONAL EC_TIMEOUTSTATE") auto
  have "hS = hx\<lparr>ctxt := c9, output_length := ec_groupt.Obytes (grouplist0 c9),
      input_length := ec_groupt.Ibytes (grouplist0 c9)\<rparr>"
    using assms init cfg map ex chk1 chk2 unfolding soem_initialize_def
    by (simp add: Let_def split: if_splits)
  then have "last_wkc hS = last_wkc hx" "last_expected_wkc hS = last_expected_wkc hx" by simp_all
  moreover have "last_wkc ?h4 = - 1" "last_expected_wkc ?h4 = 0" by simp_all
  ultimately show ?thesis using ex by blast
qed

text \<open>
  C7. Let \<^verbatim>\<open>calloc\<close> and \<^verbatim>\<open>ecx_init\<close> succeed. If the discovery reports a slave
  count that is zero or negative, \<^verbatim>\<open>soem_initialize\<close> returns no handle. If it reports
  a positive count, the process image is allocated and the mapping reports a size above
  the 64 KiB allocated, \<^verbatim>\<open>soem_initialize\<close> returns no handle. In both cases the
  resources held after the call are those held before it: the handle's memory, the
  process image and the port have been released. More generally, whenever
  \<^verbatim>\<open>soem_initialize\<close> returns no handle, the resources held are those held before.
\<close>

theorem initialize_failure_releases:
  assumes init: "ecx_init st (ctxt ((calloc_handle p0)\<lparr>last_wkc := - 1, last_expected_wkc := 0\<rparr>)) ifname = (rc, c1)"
      "rc \<noteq> 0"
    and cfg: "ecx_config_init st c1 = (n, c2)"
    and map: "ecx_config_map_group st c2 malloc_ptr (memset m malloc_ptr 0 iomap_size) = (sz, c3, m2)"
  shows "(sint n \<le> 0 \<longrightarrow>
            soem_initialize st True p0 malloc_ptr ifname m held = (None, m, held)) \<and>
         (0 < sint n \<and> malloc_ptr \<noteq> 0 \<and> int iomap_size < sint sz \<longrightarrow>
            soem_initialize st True p0 malloc_ptr ifname m held = (None, m2, held)) \<and>
         (\<forall>calloc_ok. fst (soem_initialize st calloc_ok p0 malloc_ptr ifname m held) = None \<longrightarrow>
            snd (snd (soem_initialize st calloc_ok p0 malloc_ptr ifname m held)) = held)"
  using initialize_no_slaves [OF init cfg] initialize_oversize [OF init cfg _ _ map]
    initialize_none_releases [of st _ p0 malloc_ptr ifname m held]
  by blast

theorem initialize_failure_releases_witness:
  "soem_initialize (example_stack 0 28 1 3) True () 100 None example_mem [] =
     (None, example_mem, []) \<and>
   soem_initialize (example_stack 1 70000 1 3) True () 100 None example_mem [] =
     (None, memset example_mem 100 0 iomap_size, [])"
proof -
  have one: "(1 :: c_int) \<noteq> 0" by simp
  have a: "sint (0 :: c_int) \<le> 0" by simp
  have b: "0 < sint (1 :: c_int) \<and> (100 :: nat) \<noteq> 0 \<and> int iomap_size < sint (70000 :: c_int)"
    by (simp add: iomap_size_def)
  from initialize_failure_releases [OF example_init one example_config_init example_config_map_group,
      where held = "[]"] a
  have 1: "soem_initialize (example_stack 0 28 1 3) True () 100 None example_mem [] =
     (None, example_mem, [])"
    by blast
  from initialize_failure_releases [OF example_init one example_config_init example_config_map_group,
      where held = "[]"] b
  have 2: "soem_initialize (example_stack 1 70000 1 3) True () 100 None example_mem [] =
     (None, memset example_mem 100 0 iomap_size, [])"
    by blast
  from 1 2 show ?thesis by simp
qed

subsection \<open>Health\<close>

lemma op_slaves_finite: "finite (op_slaves c i)"
proof -
  have "op_slaves c i \<subseteq> {i..sint (slavecount c)}" by auto
  then show ?thesis by (rule finite_subset) simp
qed

lemma op_slaves_card_le: "card (op_slaves c 1) \<le> nat (sint (slavecount c))"
proof -
  have "op_slaves c 1 \<subseteq> {1..sint (slavecount c)}" by auto
  then have "card (op_slaves c 1) \<le> card {1..sint (slavecount c)}"
    by (intro card_mono) simp_all
  then show ?thesis by simp
qed

lemma op_slaves_step:
  assumes "i \<le> sint (slavecount c)"
  shows "op_slaves c i =
     (if state (slavelist c (nat i)) = EC_STATE_OPERATIONAL
      then insert i (op_slaves c (i + 1)) else op_slaves c (i + 1))"
proof -
  have "i \<le> j \<longleftrightarrow> j = i \<or> i + 1 \<le> j" for j by linarith
  then show ?thesis using assms by auto
qed

lemma count_operational_card:
  "count_operational c i op = op + of_nat (card (op_slaves c i))"
proof (induction c i op rule: count_operational.induct)
  case (1 c i op)
  show ?case
  proof (cases "i \<le> sint (slavecount c)")
    case False
    then have "op_slaves c i = {}" by auto
    then have "card (op_slaves c i) = 0" by (simp only: card.empty)
    then have "(word_of_nat (card (op_slaves c i)) :: c_int) = 0" by simp
    moreover have "count_operational c i op = op"
      using False by (subst count_operational.simps) simp
    ultimately show ?thesis by simp
  next
    case True
    have notin: "i \<notin> op_slaves c (i + 1)" by simp
    have "count_operational c i op =
        count_operational c (i + 1)
          (if state (slavelist c (nat i)) = EC_STATE_OPERATIONAL then op + 1 else op)"
      using True by (subst count_operational.simps) simp
    also have "\<dots> = (if state (slavelist c (nat i)) = EC_STATE_OPERATIONAL then op + 1 else op)
        + of_nat (card (op_slaves c (i + 1)))"
      using True by (rule "1.IH")
    also have "\<dots> = op + of_nat (card (op_slaves c i))"
      using notin op_slaves_finite [where c = c and i = "i + 1"]
      by (simp add: op_slaves_step [OF True])
    finally show ?thesis .
  qed
qed

lemma get_health_expected:
  "\<exists>h' out. soem_get_health st (Some h) (Some o0) = (1, h', Some out) \<and>
     group_expected_wkc out = expected_wkc (grouplist0 (ctxt h))"
  by (simp add: soem_get_health_def Let_def expected_wkc_def)

text \<open>
  C8, as amended. On a valid handle and output pointer \<^verbatim>\<open>soem_get_health\<close> returns 1,
  reads all slave states again (the handle's context is the one \<^verbatim>\<open>ecx_readstate\<close>
  returns), and fills the snapshot: the number of slaves from 1 to the slave count whose
  state equals OPERATIONAL after the read; \<open>last_wkc\<close> as the handle caches it; as expected
  working counter twice the group's output contribution plus its input contribution,
  computed from the group at the time of the call, whatever \<open>last_expected_wkc\<close> holds;
  the group's byte lengths; and the first slave's status code, 0 when the slave count is
  below 1.
\<close>

theorem get_health_snapshot:
  assumes c1: "c1 = ecx_readstate st (ctxt h)" and g: "g = grouplist0 (ctxt h)"
  shows "\<exists>out. soem_get_health st (Some h) (Some o0) = (1, Some (h\<lparr>ctxt := c1\<rparr>), Some out) \<and>
     slaves_found out = slavecount (ctxt h) \<and>
     unat (slaves_op out) =
       card {j. 1 \<le> j \<and> j \<le> sint (slavecount c1) \<and>
                state (slavelist c1 (nat j)) = EC_STATE_OPERATIONAL} \<and>
     health_last_wkc out = last_wkc h \<and>
     group_expected_wkc out = expected_wkc g \<and>
     sint (group_expected_wkc out) = 2 * uint (outputsWKC g) + uint (inputsWKC g) \<and>
     bytes_out out = ec_groupt.Obytes g \<and> bytes_in out = ec_groupt.Ibytes g \<and>
     al_status_code out =
       (if 1 \<le> sint (slavecount c1) then ucast (ALstatuscode (slavelist c1 1)) else 0)"
proof -
  have "card (op_slaves c1 1) \<le> nat (sint (slavecount c1))" by (rule op_slaves_card_le)
  moreover have "sint (slavecount c1) < 2147483648" using sint_lt [of "slavecount c1"] by simp
  ultimately have "card (op_slaves c1 1) < 4294967296" by linarith
  then have "unat (word_of_nat (card (op_slaves c1 1)) :: c_int) = card (op_slaves c1 1)"
    by (simp add: unat_of_nat)
  then have n: "unat (count_operational c1 1 0) = card (op_slaves c1 1)"
    by (simp add: count_operational_card)
  have e: "sint (expected_wkc g) = 2 * uint (outputsWKC g) + uint (inputsWKC g)"
    by (rule sint_expected_wkc)
  show ?thesis
    unfolding soem_get_health_def
    using n e by (simp add: Let_def c1 [symmetric] g [symmetric] expected_wkc_def)
qed

theorem get_health_snapshot_witness:
  "\<exists>h' out. soem_get_health (example_stack 1 28 1 3)
       (Some (example_handle (example_slave EC_STATE_OPERATIONAL 20 8) (example_group 20 8 1 1)))
       (Some zero_health) = (1, h', Some out) \<and>
     slaves_found out = 1 \<and> unat (slaves_op out) = 1 \<and> health_last_wkc out = - 1 \<and>
     group_expected_wkc out = 3 \<and> bytes_out out = 20 \<and> bytes_in out = 8 \<and>
     al_status_code out = 0"
proof -
  let ?g = "example_group 20 8 1 1"
  let ?h = "example_handle (example_slave EC_STATE_OPERATIONAL 20 8) ?g"
  let ?st = "example_stack 1 28 1 3"
  have c1: "ctxt ?h = ecx_readstate ?st (ctxt ?h)" by (simp add: example_stack_def)
  have g: "?g = grouplist0 (ctxt ?h)" by (simp add: example_handle_def example_context_def)
  have "{j. 1 \<le> j \<and> j \<le> sint (slavecount (ctxt ?h)) \<and>
           state (slavelist (ctxt ?h) (nat j)) = EC_STATE_OPERATIONAL} = {1}"
    by (auto simp add: example_handle_def example_context_def example_slave_def)
  then have card: "card {j. 1 \<le> j \<and> j \<le> sint (slavecount (ctxt ?h)) \<and>
           state (slavelist (ctxt ?h) (nat j)) = EC_STATE_OPERATIONAL} = 1"
    by simp
  from get_health_snapshot [OF c1 g, of zero_health]
  obtain out where
    "soem_get_health ?st (Some ?h) (Some zero_health) = (1, Some (?h\<lparr>ctxt := ctxt ?h\<rparr>), Some out)"
    "slaves_found out = slavecount (ctxt ?h)"
    "unat (slaves_op out) = card {j. 1 \<le> j \<and> j \<le> sint (slavecount (ctxt ?h)) \<and>
           state (slavelist (ctxt ?h) (nat j)) = EC_STATE_OPERATIONAL}"
    "health_last_wkc out = last_wkc ?h"
    "group_expected_wkc out = expected_wkc ?g"
    "bytes_out out = ec_groupt.Obytes ?g" "bytes_in out = ec_groupt.Ibytes ?g"
    "al_status_code out =
       (if 1 \<le> sint (slavecount (ctxt ?h)) then ucast (ALstatuscode (slavelist (ctxt ?h) 1)) else 0)"
    by blast
  then have "soem_get_health ?st (Some ?h) (Some zero_health) = (1, Some (?h\<lparr>ctxt := ctxt ?h\<rparr>), Some out) \<and>
     slaves_found out = 1 \<and> unat (slaves_op out) = 1 \<and> health_last_wkc out = - 1 \<and>
     group_expected_wkc out = 3 \<and> bytes_out out = 20 \<and> bytes_in out = 8 \<and>
     al_status_code out = 0"
    unfolding card
    by (simp add: example_handle_def example_context_def example_group_def example_slave_def
        expected_wkc_def)
  then show ?thesis by blast
qed

text \<open>
  A session created on a bus whose first send fails: its cache holds the initial
  \<open>last_expected_wkc = 0\<close>, and the snapshot reports 3 as expected working counter.
\<close>

theorem get_health_ignores_cached_expected:
  "\<exists>h m' held h' out.
     soem_initialize (example_stack 1 28 (- 1) 3) True () 100 None example_mem [] = (Some h, m', held) \<and>
     last_expected_wkc h = 0 \<and>
     soem_get_health (example_stack 1 28 (- 1) 3) (Some h) (Some zero_health) = (1, h', Some out) \<and>
     group_expected_wkc out = 3"
proof -
  from initialize_example obtain h m' where
    i: "soem_initialize (example_stack 1 28 (- 1) 3) True () 100 None example_mem [] =
       (Some h, m', [IOmap_memory, Open_port, Handle_memory])"
    and c: "last_expected_wkc h = 0" and g: "grouplist0 (ctxt h) = example_group 20 8 1 1"
    by blast
  from get_health_expected [of "example_stack 1 28 (- 1) 3" h zero_health] obtain h' out where
    "soem_get_health (example_stack 1 28 (- 1) 3) (Some h) (Some zero_health) = (1, h', Some out)"
    "group_expected_wkc out = expected_wkc (grouplist0 (ctxt h))"
    by blast
  moreover have "expected_wkc (example_group 20 8 1 1) = 3"
    by (simp add: expected_wkc_def example_group_def)
  ultimately show ?thesis using i c g by auto
qed

subsection \<open>The cached working counters\<close>

text \<open>
  C9. In a call on a valid handle whose send returns a negative result, the return
  value is \<open>SOEM_ERR_SEND_FAIL\<close> and \<open>last_wkc\<close> and \<open>last_expected_wkc\<close> keep their values.
  When the send returns a non-negative result the receive step is reached, and then
  \<open>last_wkc\<close> is the receive result, negative or not, and \<open>last_expected_wkc\<close> is the
  expected working counter of this call. The first values are -1 and 0: a session that
  \<^verbatim>\<open>soem_initialize\<close> returns has the two fields as its probe exchange left them, and
  that exchange was called with \<open>last_wkc = -1\<close> and \<open>last_expected_wkc = 0\<close>.
\<close>

theorem exchange_caches_wkc:
  assumes send: "ecx_send_processdata st (ctxt h) (stage_outputs (grouplist0 (ctxt h)) ob ol m) = (s, c1, m2)"
    and recv: "ecx_receive_processdata st c1 m2 (clamp_timeout t) = (w, c2, m3)"
    and res: "soem_exchange_process_data st (Some h) ob ol ib il t m = (rc, h', ib', m')"
  shows "(sint s < 0 \<longrightarrow>
            rc = SOEM_ERR_SEND_FAIL \<and>
            (\<exists>x. h' = Some x \<and> last_wkc x = last_wkc h \<and>
                 last_expected_wkc x = last_expected_wkc h)) \<and>
         (0 \<le> sint s \<longrightarrow>
            (\<exists>x. h' = Some x \<and> last_wkc x = w \<and>
                 last_expected_wkc x = expected_wkc (grouplist0 c1)) \<and>
            (sint w < 0 \<longrightarrow> rc = SOEM_ERR_RECV_FAIL)) \<and>
         (\<forall>calloc_ok p0 ptr ifname m0 held hS mS heldS.
            soem_initialize st calloc_ok p0 ptr ifname m0 held = (Some hS, mS, heldS) \<longrightarrow>
            (\<exists>h4 m4 rc4 hx ibx mx.
               last_wkc h4 = - 1 \<and> last_expected_wkc h4 = 0 \<and>
               soem_exchange_process_data st (Some h4) None 0 None 0 2000 m4 = (rc4, Some hx, ibx, mx) \<and>
               last_wkc hS = last_wkc hx \<and> last_expected_wkc hS = last_expected_wkc hx))"
proof (intro conjI impI allI)
  assume "sint s < 0"
  from exchange_send_failed [OF send this, of ib il t] res
  show "rc = SOEM_ERR_SEND_FAIL"
    and "\<exists>x. h' = Some x \<and> last_wkc x = last_wkc h \<and> last_expected_wkc x = last_expected_wkc h"
    by auto
next
  assume s: "0 \<le> sint s"
  show "\<exists>x. h' = Some x \<and> last_wkc x = w \<and> last_expected_wkc x = expected_wkc (grouplist0 c1)"
  proof (cases "sint w < 0")
    case True
    from exchange_recv_failed [OF send recv s True, of ib il] res show ?thesis by auto
  next
    case False
    then have "0 \<le> sint w" by simp
    from exchange_received [OF send recv s this, of ib il] res show ?thesis by auto
  qed
  show "rc = SOEM_ERR_RECV_FAIL" if "sint w < 0"
    using exchange_recv_failed [OF send recv s that, of ib il] res by auto
next
  fix calloc_ok p0 ptr ifname m0 held hS mS heldS
  assume "soem_initialize st calloc_ok p0 ptr ifname m0 held = (Some hS, mS, heldS)"
  then show "\<exists>h4 m4 rc4 hx ibx mx.
               last_wkc h4 = - 1 \<and> last_expected_wkc h4 = 0 \<and>
               soem_exchange_process_data st (Some h4) None 0 None 0 2000 m4 = (rc4, Some hx, ibx, mx) \<and>
               last_wkc hS = last_wkc hx \<and> last_expected_wkc hS = last_expected_wkc hx"
    by (rule initialize_probe_cache)
qed

theorem exchange_caches_wkc_witness:
  "(\<exists>x. soem_exchange_process_data (example_stack 1 28 (- 1) 2)
           (Some (example_handle (example_slave 8 20 8) (example_group 20 8 1 1)))
           None 0 None 0 0 example_mem = (SOEM_ERR_SEND_FAIL, Some x, None, example_mem) \<and>
         last_wkc x = - 1 \<and> last_expected_wkc x = 0) \<and>
   (\<exists>x. soem_exchange_process_data (example_stack 1 28 1 (- 5))
           (Some (example_handle (example_slave 8 20 8) (example_group 20 8 1 1)))
           None 0 None 0 0 example_mem = (SOEM_ERR_RECV_FAIL, Some x, None, example_mem) \<and>
         last_wkc x = - 5 \<and> last_expected_wkc x = 3) \<and>
   (\<exists>h m' held.
      soem_initialize (example_stack 1 28 (- 1) 3) True () 100 None example_mem [] = (Some h, m', held) \<and>
      last_wkc h = - 1 \<and> last_expected_wkc h = 0)"
proof -
  let ?h = "example_handle (example_slave 8 20 8) (example_group 20 8 1 1)"
  let ?m = "stage_outputs (grouplist0 (ctxt ?h)) None 0 example_mem"
  let ?a = "example_stack 1 28 (- 1) 2" and ?b = "example_stack 1 28 1 (- 5)"
  have m: "?m = example_mem" by (simp add: stage_outputs_def)
  have sa: "ecx_send_processdata ?a (ctxt ?h) ?m = (- 1, ctxt ?h, ?m)" by (rule example_send)
  have ra: "ecx_receive_processdata ?a (ctxt ?h) ?m (clamp_timeout 0) = (2, ctxt ?h, ?m)"
    by (rule example_receive)
  have sb: "ecx_send_processdata ?b (ctxt ?h) ?m = (1, ctxt ?h, ?m)" by (rule example_send)
  have rb: "ecx_receive_processdata ?b (ctxt ?h) ?m (clamp_timeout 0) = (- 5, ctxt ?h, ?m)"
    by (rule example_receive)
  obtain rc h' ib' m' where resa:
    "soem_exchange_process_data ?a (Some ?h) None 0 None 0 0 example_mem = (rc, h', ib', m')"
    by (rule prod_cases4)
  obtain rc2 h2 ib2 m2 where resb:
    "soem_exchange_process_data ?b (Some ?h) None 0 None 0 0 example_mem = (rc2, h2, ib2, m2)"
    by (rule prod_cases4)
  have rest: "ib' = None" "m' = example_mem"
    using resa exchange_send_failed [OF sa, of None 0 0] m by simp_all
  have rest2: "ib2 = None" "m2 = example_mem"
    using resb exchange_recv_failed [OF sb rb, of None 0] m by simp_all
  have init: "last_wkc ?h = - 1" "last_expected_wkc ?h = 0"
    by (simp_all add: example_handle_def)
  have e3: "expected_wkc (grouplist0 (ctxt ?h)) = 3"
    by (simp add: example_grouplist0 expected_wkc_def example_group_def)
  from exchange_caches_wkc [OF sa ra resa] init
  obtain x where x: "rc = SOEM_ERR_SEND_FAIL" "h' = Some x" "last_wkc x = - 1" "last_expected_wkc x = 0"
    by auto
  from exchange_caches_wkc [OF sb rb resb] e3
  obtain y where y: "rc2 = SOEM_ERR_RECV_FAIL" "h2 = Some y" "last_wkc y = - 5" "last_expected_wkc y = 3"
    by auto
  have "\<exists>h m' held.
      soem_initialize (example_stack 1 28 (- 1) 3) True () 100 None example_mem [] = (Some h, m', held) \<and>
      last_wkc h = - 1 \<and> last_expected_wkc h = 0"
    using initialize_example by blast
  with resa resb rest rest2 x y show ?thesis by auto
qed

end
